theory Spec2Isabelle
  imports Complex_Main "HOL-Library.Word" "HOL-Library.Multiset"
begin

section \<open>JavaScript numbers\<close>

text \<open>
  The samples of a \<^verbatim>\<open>Float32Array\<close> and the values computed from them are IEEE numbers.
  A number is modelled as not-a-number, one of the two infinities, or a finite value
  carried as an exact real (negative zero is the real 0: every operation below
  treats the two zeros alike, and both are stored as the integer 0).

  The encoder only compares a sample and multiplies the clamped sample by \<open>0x8000\<close> or
  \<open>0x7FFF\<close>. A finite binary32 sample has a 24-bit significand, so its product with a
  15- or 16-bit integer has at most 40 significant bits and is exact in binary64; the
  exact product below is therefore the value the engine computes.
\<close>

datatype number = NaN | NegInf | Num real | PosInf

fun num_less :: "number \<Rightarrow> number \<Rightarrow> bool" where
  "num_less NaN _ = False"
| "num_less _ NaN = False"
| "num_less NegInf NegInf = False"
| "num_less NegInf _ = True"
| "num_less (Num a) (Num b) = (a < b)"
| "num_less (Num a) PosInf = True"
| "num_less (Num a) NegInf = False"
| "num_less PosInf _ = False"

text \<open>\<^verbatim>\<open>Math.min\<close> and \<^verbatim>\<open>Math.max\<close> return NaN as soon as one argument is NaN.\<close>

definition Math_min :: "number \<Rightarrow> number \<Rightarrow> number" where
  "Math_min a b = (if a = NaN \<or> b = NaN then NaN else if num_less b a then b else a)"

definition Math_max :: "number \<Rightarrow> number \<Rightarrow> number" where
  "Math_max a b = (if a = NaN \<or> b = NaN then NaN else if num_less a b then b else a)"

text \<open>Multiplication by a positive finite constant.\<close>

fun num_scale :: "number \<Rightarrow> real \<Rightarrow> number" where
  "num_scale NaN c = NaN"
| "num_scale NegInf c = NegInf"
| "num_scale (Num a) c = Num (a * c)"
| "num_scale PosInf c = PosInf"

text \<open>
  Storing a number into an \<^verbatim>\<open>Int16Array\<close> element applies the conversion ToInt16: NaN and
  the infinities become 0, a finite value is truncated towards zero and reduced modulo
  \<open>2^16\<close> into the two's-complement range.
\<close>

definition js_trunc :: "real \<Rightarrow> int" where
  "js_trunc q = (if q < 0 then - \<lfloor>- q\<rfloor> else \<lfloor>q\<rfloor>)"

fun ToInt16 :: "number \<Rightarrow> 16 word" where
  "ToInt16 (Num q) = word_of_int (js_trunc q)"
| "ToInt16 _ = 0"

section \<open>PCM encoder\<close>

text \<open>
  \<^verbatim>\<open>floatTo16BitPCM\<close>: the loop over the indices of the input writes one output element per
  input element; it is the recursion over the list of samples.
\<close>

definition encodeSample :: "number \<Rightarrow> 16 word" where
  "encodeSample x =
     (let s = Math_max (Num (- 1)) (Math_min (Num 1) x)
      in ToInt16 (if num_less s (Num 0) then num_scale s 32768 else num_scale s 32767))"

primrec floatTo16BitPCM :: "number list \<Rightarrow> 16 word list" where
  "floatTo16BitPCM [] = []"
| "floatTo16BitPCM (x # xs) = encodeSample x # floatTo16BitPCM xs"

text \<open>
  The clamped and scaled value of a finite sample, following the words of the
  specification: clamp into \<open>[-1, 1]\<close>, scale by 32768 when negative and by 32767
  otherwise.
\<close>

definition spec_scaled :: "real \<Rightarrow> real" where
  "spec_scaled x = (let s = max (- 1) (min 1 x) in if s < 0 then s * 32768 else s * 32767)"

section \<open>Volume meter\<close>

text \<open>
  The analyser is created with \<^verbatim>\<open>fftSize = 256\<close>; its \<^verbatim>\<open>frequencyBinCount\<close> is half of that.
  The frame callback allocates a byte array of that many zeros and lets the analyser fill
  it; the bytes the analyser holds at that moment are an input of the model.
\<close>

definition fftSize :: nat where
  "fftSize = 256"

definition frequencyBinCount :: nat where
  "frequencyBinCount = fftSize div 2"

definition getByteFrequencyData :: "8 word list \<Rightarrow> 8 word list" where
  "getByteFrequencyData bins =
     take frequencyBinCount bins @ replicate (frequencyBinCount - length bins) 0"

text \<open>The loop \<^verbatim>\<open>for (i...) sum += dataArray[i]\<close>, with the running sum as accumulator.\<close>

primrec sumBins :: "nat \<Rightarrow> 8 word list \<Rightarrow> nat" where
  "sumBins acc [] = acc"
| "sumBins acc (b # bs) = sumBins (acc + unat b) bs"

text \<open>
  \<^verbatim>\<open>sum / dataArray.length\<close>. The sum of at most \<open>2^45\<close> bytes is an exact integer in
  binary64 and the division of the frame callback is by 128, a power of two, so the
  quotient below is the computed value there; dividing zero by zero gives NaN.
\<close>

definition average :: "8 word list \<Rightarrow> number" where
  "average dataArray =
     (if length dataArray = 0 then NaN
      else Num (real (sumBins 0 dataArray) / real (length dataArray)))"

section \<open>Transport encoding\<close>

text \<open>
  \<^verbatim>\<open>base64EncodeAudio\<close> views the 16-bit samples as bytes (low byte first), builds the
  binary string of these bytes and applies \<^verbatim>\<open>window.btoa\<close>, the standard base64 encoding.
\<close>

definition int16_bytes :: "16 word \<Rightarrow> 8 word list" where
  "int16_bytes w = [ucast w, ucast (drop_bit 8 w)]"

definition b64char :: "nat \<Rightarrow> char" where
  "b64char n = ''ABCDEFGHIJKLMNOPQRSTUVWXYZabcdefghijklmnopqrstuvwxyz0123456789+/'' ! n"

fun btoa :: "8 word list \<Rightarrow> string" where
  "btoa [] = []"
| "btoa [a] =
     (let x = unat a
      in [b64char (x div 4), b64char ((x mod 4) * 16), CHR ''='', CHR ''=''])"
| "btoa [a, b] =
     (let x = unat a; y = unat b
      in [b64char (x div 4), b64char ((x mod 4) * 16 + y div 16),
          b64char ((y mod 16) * 4), CHR ''=''])"
| "btoa (a # b # c # bytes) =
     (let x = unat a; y = unat b; z = unat c
      in [b64char (x div 4), b64char ((x mod 4) * 16 + y div 16),
          b64char ((y mod 16) * 4 + z div 64), b64char (z mod 64)] @ btoa bytes)"

definition base64EncodeAudio :: "16 word list \<Rightarrow> string" where
  "base64EncodeAudio int16Array = btoa (concat (map int16_bytes int16Array))"

section \<open>Data model\<close>

datatype status = IDLE | CONNECTING | ARMED | DANGER

record EmergencyContact =
  name :: string
  phone :: string

record AlertLog =
  timestamp :: nat
  log_type :: string
  log_emotion :: string
  location :: string
  imageUrl :: string
  isSilent :: bool

record ErrorState =
  shown :: bool
  title :: string
  message :: string
  action :: "string option"

text \<open>
  A value thrown by a platform call or delivered by a rejected promise: an \<^verbatim>\<open>Error\<close>
  object with its name and message, or some other value.
\<close>

datatype thrown = JsError string string | NonError

datatype 'a outcome = Returns 'a | Throws thrown

text \<open>
  The tool invocation emitted by the remote engine. The declared tool schema requires
  \<open>reason\<close> and \<open>emotion\<close>; \<open>confidence\<close> is optional.
\<close>

record ToolArgs =
  reason :: string
  emotion :: string
  confidence :: "number option"

record FunctionCall =
  fc_id :: string
  fc_name :: string
  fc_args :: ToolArgs

record LiveServerMessage =
  toolCall :: "FunctionCall list option"

text \<open>What the session hands to the connection: an audio frame or a tool response.\<close>

datatype outbound =
  RealtimeInput string string
| ToolResponse string string string

section \<open>Platform objects\<close>

text \<open>
  The capability objects the code holds, each with the state the platform keeps for it:
  the tracks of a media stream are live until stopped; a processing node is connected
  until disconnected; an audio context runs until closed; the remote connection is
  connecting, open or closed; a promise is pending, fulfilled or rejected.
\<close>

datatype stream_state = Live | Ended

datatype node_state = NodeConnected | NodeDisconnected

datatype context_state = Running | Closed

datatype socket_state = SocketConnecting | SocketOpen | SocketClosed

datatype promise_state = Pending | Fulfilled | Rejected

datatype wake_lock = WakeLockSentinel

text \<open>
  \<^verbatim>\<open>track.stop()\<close> and \<^verbatim>\<open>node.disconnect()\<close> succeed in every state. \<^verbatim>\<open>AudioContext.close()\<close>
  returns a promise: resolved when a running context closes, rejected with
  \<^verbatim>\<open>InvalidStateError\<close> when the context is closed already (Web Audio API).
\<close>

definition track_stop :: "stream_state \<Rightarrow> stream_state" where
  "track_stop t = Ended"

definition node_disconnect :: "node_state \<Rightarrow> node_state" where
  "node_disconnect n = NodeDisconnected"

fun context_close :: "context_state \<Rightarrow> context_state \<times> string option" where
  "context_close Running = (Closed, None)"
| "context_close Closed = (Closed, Some ''InvalidStateError'')"

text \<open>
  What the platform answers to the next capability request is part of the world: the
  camera and the microphone request either yield a stream or reject with a thrown
  value; the wake lock is unsupported, refused or granted.
\<close>

datatype wake_lock_answer = Unsupported | Refused | Granted

record Navigator =
  camera :: "thrown option"
  microphone :: "thrown option"
  wakeLock :: wake_lock_answer

datatype capability = Camera | Microphone | ScreenWakeLock | Geolocation

record HTMLVideoElement =
  srcObject :: "stream_state option"

record HTMLCanvasElement =
  width :: nat
  height :: nat

section \<open>The session object\<close>

text \<open>
  The callbacks of a session are closures created by one run of \<^verbatim>\<open>toggleArm\<close>; they read
  \<^verbatim>\<open>silentMode\<close> and \<^verbatim>\<open>contact\<close> as that run saw them. The session keeps this scope, from
  which the closures are rebuilt (\<open>controllerCallbacks\<close> below).
\<close>

record Scope =
  scope_silentMode :: bool
  scope_contact :: EmergencyContact

text \<open>
  The fields of \<^verbatim>\<open>SafetySentinel\<close>, \<open>None\<close> for \<^verbatim>\<open>null\<close>. \<open>sessionPromise\<close> is the promise
  returned by \<^verbatim>\<open>ai.live.connect\<close>, which the closures of \<^verbatim>\<open>start\<close> share; \<open>socket\<close> is the
  remote connection behind it. \<open>reactions\<close> are the sends registered on the promise
  with \<^verbatim>\<open>then\<close> and not yet run, \<open>transport\<close> the sends handed to the connection, in
  order. \<open>unhandled\<close> lists the rejected promises nobody observes.
\<close>

record SafetySentinel =
  callbacks :: Scope
  mediaStream :: "stream_state option"
  audioContext :: "context_state option"
  processor :: "node_state option"
  analyser :: bool
  isConnected :: bool
  sessionPromise :: "promise_state option"
  socket :: "socket_state option"
  reactions :: "outbound list"
  transport :: "outbound list"
  unhandled :: "string list"

definition new_SafetySentinel :: "Scope \<Rightarrow> SafetySentinel" where
  "new_SafetySentinel scope =
     \<lparr>callbacks = scope, mediaStream = None, audioContext = None, processor = None,
      analyser = False, isConnected = False, sessionPromise = None, socket = None,
      reactions = [], transport = [], unhandled = []\<rparr>"

text \<open>
  \<^verbatim>\<open>sessionPromise.then(session => session.send...(m))\<close>: the send runs at once (before
  the next event) when the promise is fulfilled, waits in \<open>reactions\<close> while it is
  pending, and never runs when it is rejected.
\<close>

definition then_send :: "outbound \<Rightarrow> SafetySentinel \<Rightarrow> SafetySentinel" where
  "then_send m s =
     (case sessionPromise s of
        Some Fulfilled \<Rightarrow> s\<lparr>transport := transport s @ [m]\<rparr>
      | Some Pending \<Rightarrow> s\<lparr>reactions := reactions s @ [m]\<rparr>
      | Some Rejected \<Rightarrow> s\<lparr>unhandled := unhandled s @ [''sessionPromise'']\<rparr>
      | None \<Rightarrow> s)"

text \<open>\<^verbatim>\<open>stop()\<close>. The handles are kept after the teardown; nothing is thrown.\<close>

definition stop :: "SafetySentinel \<Rightarrow> SafetySentinel" where
  "stop this =
     (let s1 = this\<lparr>isConnected := False\<rparr>;
          s2 = (case mediaStream s1 of
                  None \<Rightarrow> s1
                | Some t \<Rightarrow> s1\<lparr>mediaStream := Some (track_stop t)\<rparr>);
          s3 = (case processor s2 of
                  None \<Rightarrow> s2
                | Some n \<Rightarrow> s2\<lparr>processor := Some (node_disconnect n)\<rparr>)
      in (case audioContext s3 of
            None \<Rightarrow> s3
          | Some c \<Rightarrow>
              (case context_close c of
                 (c', None) \<Rightarrow> s3\<lparr>audioContext := Some c'\<rparr>
               | (c', Some e) \<Rightarrow>
                   s3\<lparr>audioContext := Some c', unhandled := unhandled s3 @ [e]\<rparr>)))"


section \<open>The world of the controller\<close>

text \<open>
  One record holds what the \<^verbatim>\<open>App\<close> component owns and what its handlers can reach:
  the React state variables, the refs, the session object behind \<^verbatim>\<open>sentinelRef\<close>, the
  platform's answers, the capability requests issued so far (in order), the console, and
  the runs of \<^verbatim>\<open>triggerAlert\<close> that are suspended at their \<^verbatim>\<open>await\<close>, each with the values
  its continuation still needs.

  Handlers run one at a time, to completion; an \<^verbatim>\<open>await\<close> on a platform request is
  resolved with the answer recorded in \<open>navigator\<close>. The evidence capture, whose
  geolocation request may settle after other events, is the one suspension that is kept
  explicit. Events of a session are delivered to the session object that
  \<^verbatim>\<open>sentinelRef\<close> refers to.
\<close>

record Suspended =
  s_reason :: string
  s_emotion :: string
  s_silentMode :: bool
  s_contact :: EmergencyContact

record world =
  isArmed :: bool
  status :: status
  contact :: EmergencyContact
  logs :: "AlertLog list"
  volume :: number
  silentMode :: bool
  blackoutMode :: bool
  errorState :: ErrorState
  sentinelRef :: "SafetySentinel option"
  videoRef :: "HTMLVideoElement option"
  canvasRef :: "HTMLCanvasElement option"
  wakeLockRef :: "wake_lock option"
  navigator :: Navigator
  acquisitions :: "capability list"
  console :: "string list"
  suspended :: "Suspended list"

text \<open>An assignment to a field of \<^verbatim>\<open>this\<close>, the session object.\<close>

definition this_update :: "(SafetySentinel \<Rightarrow> SafetySentinel) \<Rightarrow> world \<Rightarrow> world" where
  "this_update f w = w\<lparr>sentinelRef := map_option f (sentinelRef w)\<rparr>"

text \<open>
  \<^verbatim>\<open>SentinelCallbacks\<close>. The trigger callback is the one whose exceptions matter below: it
  returns the world it leaves and the value it threw, if any.
\<close>

record SentinelCallbacks =
  onConnect :: "world \<Rightarrow> world"
  onDisconnect :: "world \<Rightarrow> world"
  onEmergencyTriggered :: "string \<Rightarrow> string \<Rightarrow> world \<Rightarrow> world \<times> thrown option"
  onError :: "string \<Rightarrow> world \<Rightarrow> world"
  onVolumeChange :: "(number \<Rightarrow> world \<Rightarrow> world) option"

section \<open>Session operations\<close>

text \<open>The normalised message of the \<^verbatim>\<open>catch\<close> block of \<^verbatim>\<open>start\<close>.\<close>

fun microphoneMessage :: "thrown \<Rightarrow> string" where
  "microphoneMessage (JsError n m) =
     (if n = ''NotAllowedError'' then ''Microphone permission was denied.''
      else if n = ''NotFoundError'' then ''No microphone found.''
      else if n = ''NotReadableError'' then ''Microphone is in use by another app.''
      else m)"
| "microphoneMessage NonError = ''Failed to access microphone.''"

text \<open>
  \<^verbatim>\<open>start()\<close>: the microphone request; on success the audio graph is built and the
  connection is requested, its promise pending. A rejected request is caught, reported
  through \<^verbatim>\<open>onError\<close>, and \<^verbatim>\<open>start\<close> returns normally.
\<close>

definition start :: "SentinelCallbacks \<Rightarrow> world \<Rightarrow> world" where
  "start cbs w =
     (let w1 = w\<lparr>acquisitions := acquisitions w @ [Microphone]\<rparr>
      in (case microphone (navigator w1) of
            Some error \<Rightarrow> onError cbs (microphoneMessage error) w1
          | None \<Rightarrow>
              this_update (\<lambda>s. s\<lparr>mediaStream := Some Live, audioContext := Some Running,
                  analyser := True, processor := Some NodeConnected,
                  sessionPromise := Some Pending, socket := Some SocketConnecting\<rparr>) w1))"

text \<open>The connection callbacks registered by \<^verbatim>\<open>start\<close>.\<close>

definition onopen :: "SentinelCallbacks \<Rightarrow> world \<Rightarrow> world" where
  "onopen cbs w =
     onConnect cbs
       (this_update (\<lambda>s. s\<lparr>isConnected := True, socket := Some SocketOpen\<rparr>)
          (w\<lparr>console := console w @ [''Sentinel Connected to Neural Network'']\<rparr>))"

definition onclose :: "SentinelCallbacks \<Rightarrow> world \<Rightarrow> world" where
  "onclose cbs w =
     onDisconnect cbs
       (this_update (\<lambda>s. s\<lparr>isConnected := False, socket := Some SocketClosed\<rparr>)
          (w\<lparr>console := console w @ [''Sentinel Disconnected'']\<rparr>))"

text \<open>\<^verbatim>\<open>err.message || "Connection error"\<close>: a missing or empty message is falsy.\<close>

definition onerror :: "SentinelCallbacks \<Rightarrow> string option \<Rightarrow> world \<Rightarrow> world" where
  "onerror cbs err_message w =
     onError cbs
       (case err_message of
          None \<Rightarrow> ''Connection error''
        | Some m \<Rightarrow> if m = [] then ''Connection error'' else m)
       (w\<lparr>console := console w @ [''Sentinel Error'']\<rparr>)"

text \<open>The connection promise settles: the pending reactions run in registration order.\<close>

definition sessionFulfilled :: "SafetySentinel \<Rightarrow> SafetySentinel" where
  "sessionFulfilled s =
     (case sessionPromise s of
        Some Pending \<Rightarrow>
          s\<lparr>sessionPromise := Some Fulfilled, transport := transport s @ reactions s,
            reactions := []\<rparr>
      | _ \<Rightarrow> s)"

text \<open>
  The audio processing callback. One event carries the samples of channel 0 and the
  bytes the analyser reports for that frame.
\<close>

record AudioProcessingEvent =
  channelData :: "number list"
  frequencyData :: "8 word list"

definition onaudioprocess :: "SentinelCallbacks \<Rightarrow> AudioProcessingEvent \<Rightarrow> world \<Rightarrow> world" where
  "onaudioprocess cbs e w =
     (case sentinelRef w of
        None \<Rightarrow> w
      | Some this \<Rightarrow>
          if \<not> isConnected this then w
          else
            (let inputData = channelData e;
                 pcmData = floatTo16BitPCM inputData;
                 base64Data = base64EncodeAudio pcmData;
                 w1 = this_update (then_send (RealtimeInput ''audio/pcm;rate=16000'' base64Data)) w
             in (case onVolumeChange cbs of
                   None \<Rightarrow> w1
                 | Some f \<Rightarrow>
                     if analyser this
                     then f (average (getByteFrequencyData (frequencyData e))) w1
                     else w1)))"

text \<open>
  \<^verbatim>\<open>handleMessage\<close>: the loop over the function calls of a message. A value thrown by the
  trigger callback leaves the loop and the function; nothing catches it here.
\<close>

fun handleCalls :: "SentinelCallbacks \<Rightarrow> FunctionCall list \<Rightarrow> world \<Rightarrow> world \<times> thrown option" where
  "handleCalls cbs [] w = (w, None)"
| "handleCalls cbs (fc # fcs) w =
     (if fc_name fc = ''triggerEmergency'' then
        (let args = fc_args fc
         in (case onEmergencyTriggered cbs (reason args) (emotion args) w of
               (w1, Some ex) \<Rightarrow> (w1, Some ex)
             | (w1, None) \<Rightarrow>
                 handleCalls cbs fcs
                   (this_update
                      (then_send (ToolResponse (fc_id fc) (fc_name fc) ''ALERTS_SENT'')) w1)))
      else handleCalls cbs fcs w)"

definition handleMessage :: "SentinelCallbacks \<Rightarrow> LiveServerMessage \<Rightarrow> world \<Rightarrow> world \<times> thrown option" where
  "handleMessage cbs msg w =
     (case toolCall msg of
        None \<Rightarrow> (w, None)
      | Some functionCalls \<Rightarrow> handleCalls cbs functionCalls w)"

section \<open>Controller operations\<close>

definition requestWakeLock :: "world \<Rightarrow> world" where
  "requestWakeLock w =
     (case wakeLock (navigator w) of
        Unsupported \<Rightarrow> w
      | Refused \<Rightarrow>
          w\<lparr>acquisitions := acquisitions w @ [ScreenWakeLock],
            console := console w @ [''Wake Lock Error:'']\<rparr>
      | Granted \<Rightarrow>
          w\<lparr>acquisitions := acquisitions w @ [ScreenWakeLock],
            wakeLockRef := Some WakeLockSentinel\<rparr>)"

text \<open>
  \<^verbatim>\<open>releaseWakeLock\<close> calls \<^verbatim>\<open>release()\<close> on the handle it holds and clears the reference:
  a cleared reference is a released lock.
\<close>

definition releaseWakeLock :: "world \<Rightarrow> world" where
  "releaseWakeLock w =
     (case wakeLockRef w of
        None \<Rightarrow> w
      | Some l \<Rightarrow> w\<lparr>wakeLockRef := None\<rparr>)"

definition handleError :: "string \<Rightarrow> string \<Rightarrow> string option \<Rightarrow> world \<Rightarrow> world" where
  "handleError t m a w =
     releaseWakeLock
       (w\<lparr>errorState := \<lparr>shown = True, title = t, message = m, action = a\<rparr>,
          status := IDLE, isArmed := False\<rparr>)"

subsection \<open>Evidence capture\<close>

text \<open>
  \<^verbatim>\<open>Number.prototype.toFixed\<close> for finite values below \<open>10^21\<close>: the decimal digits of the
  nearest multiple of \<open>10^-f\<close> (the larger one at a tie), with a sign for negative values.
\<close>

definition digit :: "nat \<Rightarrow> char" where
  "digit n = ''0123456789'' ! n"

function decimal :: "nat \<Rightarrow> string" where
  "decimal n = (if n < 10 then [digit n] else decimal (n div 10) @ [digit (n mod 10)])"
  by pat_completeness auto
termination
  by (relation "measure (\<lambda>n. n)") auto

declare decimal.simps [simp del]

definition toFixed :: "nat \<Rightarrow> real \<Rightarrow> string" where
  "toFixed f x =
     (let n = nat \<lfloor>\<bar>x\<bar> * 10 ^ f + 1 / 2\<rfloor>;
          fs = decimal (n mod 10 ^ f)
      in (if x < 0 then ''-'' else [])
         @ decimal (n div 10 ^ f)
         @ (if f = 0 then [] else ''.'' @ replicate (f - length fs) (CHR ''0'') @ fs))"

record GeolocationPosition =
  latitude :: real
  longitude :: real

text \<open>
  What the platform does during one capture: the geolocation request (made with
  \<^verbatim>\<open>timeout: 5000\<close>) calls the success callback with a position or the error callback
  (permission denied, position unavailable, timeout), which rejects the awaited promise;
  \<^verbatim>\<open>getContext('2d')\<close> yields a context or \<^verbatim>\<open>null\<close>; the video frame has its dimensions,
  both 0 as long as the feed has delivered no frame; \<^verbatim>\<open>drawImage\<close> returns or throws;
  \<open>toDataURL\<close> is what the encoder of a canvas that has pixels returns or throws.
\<close>

record Capture =
  geolocation :: "GeolocationPosition outcome"
  getContext :: bool
  videoWidth :: nat
  videoHeight :: nat
  drawImage :: "unit outcome"
  toDataURL :: "string outcome"

record Evidence =
  ev_location :: string
  ev_imageUrl :: string

text \<open>
  \<^verbatim>\<open>canvas.toDataURL\<close>: a canvas whose width or height is 0 has no pixels, and its
  serialisation is the string \<^verbatim>\<open>data:,\<close> (HTML standard); otherwise the encoder runs.
\<close>

definition canvas_toDataURL :: "HTMLCanvasElement \<Rightarrow> string outcome \<Rightarrow> string outcome" where
  "canvas_toDataURL canvas encoded =
     (if width canvas = 0 \<or> height canvas = 0 then Returns ''data:,'' else encoded)"

text \<open>The bodies of the two \<^verbatim>\<open>try\<close> blocks; each may throw.\<close>

definition tryLocation :: "Capture \<Rightarrow> string outcome" where
  "tryLocation env =
     (case geolocation env of
        Throws e \<Rightarrow> Throws e
      | Returns pos \<Rightarrow>
          Returns (toFixed 5 (latitude pos) @ '', '' @ toFixed 5 (longitude pos)))"

definition tryPhoto :: "Capture \<Rightarrow> world \<Rightarrow> string outcome \<times> world" where
  "tryPhoto env w =
     (if \<not> getContext env then (Returns [], w)
      else
        (let canvas = \<lparr>width = videoWidth env, height = videoHeight env\<rparr>;
             w1 = w\<lparr>canvasRef := Some canvas\<rparr>
         in (case drawImage env of
               Throws e \<Rightarrow> (Throws e, w1)
             | Returns u \<Rightarrow>
                 (case canvas_toDataURL canvas (toDataURL env) of
                    Throws e \<Rightarrow> (Throws e, w1)
                  | Returns url \<Rightarrow> (Returns url, w1)))))"

text \<open>
  \<^verbatim>\<open>captureEvidence\<close>, with the handlers of the two \<^verbatim>\<open>try\<close> blocks. Its result is an
  outcome, so that a value escaping both handlers would show.
\<close>

definition captureEvidence :: "Capture \<Rightarrow> world \<Rightarrow> Evidence outcome \<times> world" where
  "captureEvidence env w =
     (let (locationStr, w1) =
            (case tryLocation env of
               Returns l \<Rightarrow> (l, w)
             | Throws e \<Rightarrow> (''Unknown Location'', w\<lparr>console := console w @ [''Location failed'']\<rparr>));
          (imageUrl, w2) =
            (if videoRef w1 \<noteq> None \<and> canvasRef w1 \<noteq> None then
               (case tryPhoto env w1 of
                  (Returns url, w') \<Rightarrow> (url, w')
                | (Throws e, w') \<Rightarrow> ([], w'\<lparr>console := console w' @ [''Image capture failed'']\<rparr>))
             else ([], w1))
      in (Returns \<lparr>ev_location = locationStr, ev_imageUrl = imageUrl\<rparr>, w2))"

subsection \<open>The alert pipeline\<close>

text \<open>
  \<^verbatim>\<open>triggerAlert\<close> is an async function. Called, it runs to its \<^verbatim>\<open>await\<close>: the visual
  decision, then the call of \<^verbatim>\<open>captureEvidence\<close>, which issues the geolocation request.
  It returns a promise to its caller and never throws into it. \<open>silentMode\<close> and
  \<open>contact\<close> are the values of the scope in which the closure was created.
\<close>

definition triggerAlert :: "Scope \<Rightarrow> string \<Rightarrow> string \<Rightarrow> world \<Rightarrow> world" where
  "triggerAlert scope r e w =
     (let w1 = (if \<not> scope_silentMode scope
                then w\<lparr>status := DANGER, blackoutMode := False\<rparr> else w)
      in w1\<lparr>acquisitions := acquisitions w1 @ [Geolocation],
            suspended := suspended w1 @
              [\<lparr>s_reason = r, s_emotion = e, s_silentMode = scope_silentMode scope,
                s_contact = scope_contact scope\<rparr>]\<rparr>)"

definition alertLine :: "Suspended \<Rightarrow> string" where
  "alertLine k =
     ''['' @ (if s_silentMode k then ''SILENT'' else ''LOUD'') @ '' ALERT SENT] To: ''
     @ name (s_contact k) @ '' ('' @ phone (s_contact k) @ '') | Reason: '' @ s_reason k"

text \<open>
  The continuation of \<^verbatim>\<open>triggerAlert\<close> once the geolocation request has settled: the rest
  of the capture, the new entry put in front of the log, the stubbed dispatch. \<open>now\<close>
  is the clock read by \<^verbatim>\<open>new Date()\<close>.
\<close>

definition triggerAlert_resume :: "Suspended \<Rightarrow> Capture \<Rightarrow> nat \<Rightarrow> world \<Rightarrow> world" where
  "triggerAlert_resume k env now w =
     (case captureEvidence env w of
        (Throws e, w1) \<Rightarrow> w1
      | (Returns evidence, w1) \<Rightarrow>
          (let newLog = \<lparr>timestamp = now, log_type = s_reason k, log_emotion = s_emotion k,
                 location = ev_location evidence, imageUrl = ev_imageUrl evidence,
                 isSilent = s_silentMode k\<rparr>
           in w1\<lparr>logs := newLog # logs w1, console := console w1 @ [alertLine k]\<rparr>))"

text \<open>The geolocation request of the \<open>i\<close>-th suspended run settles.\<close>

definition evidenceSettled :: "nat \<Rightarrow> Capture \<Rightarrow> nat \<Rightarrow> world \<Rightarrow> world" where
  "evidenceSettled i env now w =
     (if i < length (suspended w)
      then triggerAlert_resume (suspended w ! i) env now
             (w\<lparr>suspended := take i (suspended w) @ drop (Suc i) (suspended w)\<rparr>)
      else w)"

subsection \<open>Arming and disarming\<close>

text \<open>The callbacks \<^verbatim>\<open>toggleArm\<close> passes to the session it constructs.\<close>

definition controllerCallbacks :: "Scope \<Rightarrow> SentinelCallbacks" where
  "controllerCallbacks scope =
     \<lparr>onConnect = (\<lambda>w. requestWakeLock (w\<lparr>status := ARMED\<rparr>)),
      onDisconnect = (\<lambda>w. w),
      onEmergencyTriggered = (\<lambda>r e w. (triggerAlert scope r e w, None)),
      onError = (\<lambda>err w. handleError ''Sentinel System Error'' err None w),
      onVolumeChange = Some (\<lambda>vol w. w\<lparr>volume := vol\<rparr>)\<rparr>"

fun cameraMessage :: "thrown \<Rightarrow> string" where
  "cameraMessage (JsError n m) =
     (if n = ''NotAllowedError'' then
        ''You have blocked camera access. Please go to your browser settings and allow camera access for this site to use the safety features.''
      else if n = ''NotFoundError'' then ''No camera found on this device.''
      else if n = ''NotReadableError'' then
        ''Your camera is currently in use by another application.''
      else ''We need camera access to capture evidence during an emergency.'')"
| "cameraMessage NonError = ''We need camera access to capture evidence during an emergency.''"

text \<open>The two branches of \<^verbatim>\<open>toggleArm\<close>.\<close>

definition disarm :: "world \<Rightarrow> world" where
  "disarm w =
     (let w1 = w\<lparr>sentinelRef := map_option stop (sentinelRef w)\<rparr>;
          w2 = releaseWakeLock w1
      in w2\<lparr>isArmed := False, status := IDLE, volume := Num 0, blackoutMode := False\<rparr>)"

definition arm :: "world \<Rightarrow> world" where
  "arm w =
     (if name (contact w) = [] \<or> phone (contact w) = [] then
        handleError ''Setup Required''
          ''Please enter an emergency contact name and phone number.'' None w
      else
        (let w1 = w\<lparr>status := CONNECTING, acquisitions := acquisitions w @ [Camera]\<rparr>
         in (case camera (navigator w1) of
               Some e \<Rightarrow> handleError ''Camera Permission Failed'' (cameraMessage e) None w1
             | None \<Rightarrow>
                 (let w2 = w1\<lparr>videoRef :=
                              map_option (\<lambda>v. v\<lparr>srcObject := Some Live\<rparr>) (videoRef w1)\<rparr>;
                      scope = \<lparr>scope_silentMode = silentMode w, scope_contact = contact w\<rparr>;
                      w3 = w2\<lparr>sentinelRef := Some (new_SafetySentinel scope)\<rparr>;
                      w4 = start (controllerCallbacks scope) w3
                  in w4\<lparr>isArmed := True\<rparr>))))"

definition toggleArm :: "world \<Rightarrow> world" where
  "toggleArm w = (if isArmed w then disarm w else arm w)"

text \<open>
  The Silent Mode switch of the setup form, \<^verbatim>\<open>setSilentMode(!silentMode)\<close>. The form is
  rendered only while the armed flag is not set.
\<close>

definition switchSilentMode :: "world \<Rightarrow> world" where
  "switchSilentMode w = (if isArmed w then w else w\<lparr>silentMode := \<not> silentMode w\<rparr>)"

subsection \<open>Events\<close>

text \<open>
  What can happen to the system: the user toggles the arming or switches the silent
  mode, the connection opens, closes,
  reports an error or delivers a message, the connection promise is fulfilled, an audio
  frame arrives, the evidence capture of a suspended alert settles. A session event
  runs the session's handler with the callbacks of the scope the session was built in;
  a value thrown out of \<^verbatim>\<open>handleMessage\<close> is lost to the caller of the handler.
\<close>

datatype event =
  ToggleArm
| Open
| Close
| ConnectionError "string option"
| Message LiveServerMessage
| SessionFulfilled
| Frame AudioProcessingEvent
| EvidenceSettled nat Capture nat
| SwitchSilentMode

definition deliver :: "event \<Rightarrow> world \<Rightarrow> world" where
  "deliver ev w =
     (case ev of
        ToggleArm \<Rightarrow> toggleArm w
      | EvidenceSettled i env now \<Rightarrow> evidenceSettled i env now w
      | SwitchSilentMode \<Rightarrow> switchSilentMode w
      | _ \<Rightarrow>
          (case sentinelRef w of
             None \<Rightarrow> w
           | Some this \<Rightarrow>
               (let cbs = controllerCallbacks (callbacks this)
                in (case ev of
                      Open \<Rightarrow> onopen cbs w
                    | Close \<Rightarrow> onclose cbs w
                    | ConnectionError m \<Rightarrow> onerror cbs m w
                    | Message msg \<Rightarrow> fst (handleMessage cbs msg w)
                    | SessionFulfilled \<Rightarrow> this_update sessionFulfilled w
                    | Frame e \<Rightarrow> onaudioprocess cbs e w
                    | _ \<Rightarrow> w))))"

primrec run :: "event list \<Rightarrow> world \<Rightarrow> world" where
  "run [] w = w"
| "run (ev # evs) w = run evs (deliver ev w)"

text \<open>The component as first rendered, on a platform that grants every request.\<close>

definition initial :: world where
  "initial =
     \<lparr>isArmed = False, status = IDLE, contact = \<lparr>name = [], phone = []\<rparr>, logs = [],
      volume = Num 0, silentMode = False, blackoutMode = False,
      errorState = \<lparr>shown = False, title = [], message = [], action = None\<rparr>,
      sentinelRef = None, videoRef = Some \<lparr>srcObject = None\<rparr>,
      canvasRef = Some \<lparr>width = 300, height = 150\<rparr>, wakeLockRef = None,
      navigator = \<lparr>camera = None, microphone = None, wakeLock = Granted\<rparr>,
      acquisitions = [], console = [], suspended = []\<rparr>"


section \<open>Vocabulary of the properties\<close>

text \<open>
  The acknowledgment \<^verbatim>\<open>handleMessage\<close> builds for a function call, the calls of a message
  that name the distress tool, and the effect of registering several sends in turn.
\<close>

definition isTrigger :: "FunctionCall \<Rightarrow> bool" where
  "isTrigger fc = (fc_name fc = ''triggerEmergency'')"

definition acknowledgment :: "FunctionCall \<Rightarrow> outbound" where
  "acknowledgment fc = ToolResponse (fc_id fc) (fc_name fc) ''ALERTS_SENT''"

definition acknowledgments :: "FunctionCall list \<Rightarrow> outbound list" where
  "acknowledgments fcs = map acknowledgment (filter isTrigger fcs)"

primrec then_send_all :: "outbound list \<Rightarrow> SafetySentinel \<Rightarrow> SafetySentinel" where
  "then_send_all [] s = s"
| "then_send_all (m # ms) s = then_send_all ms (then_send m s)"

text \<open>The suspended run of \<^verbatim>\<open>triggerAlert\<close> that a function call leaves behind.\<close>

definition suspension :: "Scope \<Rightarrow> FunctionCall \<Rightarrow> Suspended" where
  "suspension scope fc =
     \<lparr>s_reason = reason (fc_args fc), s_emotion = emotion (fc_args fc),
      s_silentMode = scope_silentMode scope, s_contact = scope_contact scope\<rparr>"

text \<open>The function calls naming the distress tool that an event delivers.\<close>

fun invocations :: "event \<Rightarrow> FunctionCall list" where
  "invocations (Message msg) =
     (case toolCall msg of None \<Rightarrow> [] | Some fcs \<Rightarrow> filter isTrigger fcs)"
| "invocations _ = []"

text \<open>
  The suspended runs that a sequence of events starts: each distress call delivered
  starts one, with the scope of the session it is delivered to.
\<close>

primrec delivered :: "event list \<Rightarrow> world \<Rightarrow> Suspended list" where
  "delivered [] w = []"
| "delivered (ev # evs) w =
     (case sentinelRef w of
        None \<Rightarrow> []
      | Some sn \<Rightarrow> map (suspension (callbacks sn)) (invocations ev))
     @ delivered evs (deliver ev w)"

text \<open>What a log entry and a suspended run carry of an invocation.\<close>

definition entryKey :: "AlertLog \<Rightarrow> string \<times> string \<times> bool" where
  "entryKey l = (log_type l, log_emotion l, isSilent l)"

definition runKey :: "Suspended \<Rightarrow> string \<times> string \<times> bool" where
  "runKey k = (s_reason k, s_emotion k, s_silentMode k)"

text \<open>Concrete inputs: a contact, a distress call as the specification's scenario has it,
  an armed and connected system, a capture whose geolocation request times out.\<close>

definition mom :: world where
  "mom = initial\<lparr>contact := \<lparr>name = ''Mom'', phone = ''+15550123''\<rparr>\<rparr>"

definition scream :: FunctionCall where
  "scream =
     \<lparr>fc_id = ''call-1'', fc_name = ''triggerEmergency'',
      fc_args = \<lparr>reason = ''chaotic scream'', emotion = ''MORTAL_FEAR'',
                 confidence = Some (Num (97 / 100))\<rparr>\<rparr>"

definition armed :: world where
  "armed = run [ToggleArm, Open, SessionFulfilled] mom"

definition timedOut :: Capture where
  "timedOut =
     \<lparr>geolocation = Throws (JsError ''GeolocationPositionError'' ''Timeout expired''),
      getContext = True, videoWidth = 640, videoHeight = 480,
      drawImage = Returns (), toDataURL = Returns ''data:image/jpeg;base64,AAAA''\<rparr>"


text \<open>
  The system armed in silent mode and connected, then disarmed, then switched back to
  loud; and the system armed, connected, and hit by a connection error.
\<close>

definition silentThenLoud :: world where
  "silentThenLoud =
     run [SwitchSilentMode, ToggleArm, Open, SessionFulfilled, ToggleArm, SwitchSilentMode] mom"


text \<open>A set of callbacks whose trigger callback throws.\<close>

definition throwingCallbacks :: SentinelCallbacks where
  "throwingCallbacks =
     (controllerCallbacks \<lparr>scope_silentMode = False, scope_contact = contact mom\<rparr>)
       \<lparr>onEmergencyTriggered := (\<lambda>r e w. (w, Some (JsError ''Error'' ''trigger failed'')))\<rparr>"


text \<open>A platform that grants the camera and denies the microphone.\<close>

definition micDenied :: world where
  "micDenied =
     mom\<lparr>navigator := \<lparr>camera = None,
                          microphone = Some (JsError ''NotAllowedError'' ''Permission denied''),
                          wakeLock = Granted\<rparr>\<rparr>"

text \<open>An audio frame whose frequency bins are all at full scale.\<close>

definition loud :: AudioProcessingEvent where
  "loud = \<lparr>channelData = [Num (1 / 2), Num (- 1)], frequencyData = replicate 128 255\<rparr>"



section \<open>Properties of the PCM encoder\<close>

lemma js_trunc_close: "\<bar>of_int (js_trunc q) - q\<bar> < 1"
  unfolding js_trunc_def by (auto; linarith)

lemma js_trunc_range:
  assumes "- 32768 \<le> q" "q \<le> 32767"
  shows "- 32768 \<le> js_trunc q \<and> js_trunc q \<le> 32767"
proof -
  have "\<lfloor>q\<rfloor> \<le> 32767" "\<lfloor>- q\<rfloor> \<le> 32768"
    using assms by linarith+
  moreover have "q < 0 \<Longrightarrow> 0 \<le> \<lfloor>- q\<rfloor>" "\<not> q < 0 \<Longrightarrow> 0 \<le> \<lfloor>q\<rfloor>"
    by linarith+
  ultimately show ?thesis
    unfolding js_trunc_def by (cases "q < 0"; simp only: if_True if_False; linarith)
qed

lemma sint_int16:
  assumes "- 32768 \<le> k" "k \<le> 32767"
  shows "sint (word_of_int k :: 16 word) = k"
  using assms by (simp add: int_word_sint)

lemma spec_scaled_range: "- 32768 \<le> spec_scaled x \<and> spec_scaled x \<le> 32767"
  unfolding spec_scaled_def Let_def by (auto simp: min_def max_def)

lemma clamp_Num:
  "Math_max (Num (- 1)) (Math_min (Num 1) (Num x)) = Num (max (- 1) (min 1 x))"
  by (auto simp: Math_max_def Math_min_def min_def max_def)

lemma encodeSample_Num: "sint (encodeSample (Num x)) = js_trunc (spec_scaled x)"
proof -
  have "encodeSample (Num x) = word_of_int (js_trunc (spec_scaled x))"
    unfolding encodeSample_def clamp_Num spec_scaled_def Let_def
    by (auto simp: min_def max_def)
  with js_trunc_range [of "spec_scaled x"] spec_scaled_range [of x] show ?thesis
    by (simp add: sint_int16)
qed

lemma encodeSample_NaN: "encodeSample NaN = 0"
  by (simp add: encodeSample_def Math_max_def Math_min_def)

lemma encodeSample_PosInf: "sint (encodeSample PosInf) = 32767"
  by (simp add: encodeSample_def Math_max_def Math_min_def js_trunc_def)

lemma encodeSample_NegInf: "sint (encodeSample NegInf) = - 32768"
  by (simp add: encodeSample_def Math_max_def Math_min_def js_trunc_def)

lemma length_floatTo16BitPCM: "length (floatTo16BitPCM xs) = length xs"
  by (induction xs) simp_all

lemma nth_floatTo16BitPCM:
  "i < length xs \<Longrightarrow> floatTo16BitPCM xs ! i = encodeSample (xs ! i)"
  by (induction xs arbitrary: i) (simp_all add: nth_Cons split: nat.splits)

text \<open>
  Claim C6. For every input array the encoder, a total function of its input alone,
  returns exactly one 16-bit sample per input sample. The sample encoded for a finite
  input differs by less than one quantization step from the input clamped to \<open>[-1, 1]\<close>
  and scaled by 32768 when negative and by 32767 otherwise; the infinities encode as
  the two ends of the 16-bit range; and a NaN input is stored as 0.
\<close>

theorem floatTo16BitPCM_spec:
  "length (floatTo16BitPCM input) = length input \<and>
   (\<forall>i < length input.
      (input ! i = NaN \<longrightarrow> floatTo16BitPCM input ! i = 0) \<and>
      (input ! i = PosInf \<longrightarrow> sint (floatTo16BitPCM input ! i) = 32767) \<and>
      (input ! i = NegInf \<longrightarrow> sint (floatTo16BitPCM input ! i) = - 32768) \<and>
      (\<forall>x. input ! i = Num x \<longrightarrow>
           \<bar>of_int (sint (floatTo16BitPCM input ! i)) - spec_scaled x\<bar> < 1))"
  by (simp add: length_floatTo16BitPCM nth_floatTo16BitPCM encodeSample_NaN
      encodeSample_PosInf encodeSample_NegInf encodeSample_Num js_trunc_close)

theorem floatTo16BitPCM_spec_witness:
  "map sint (floatTo16BitPCM [Num (1 / 2), NaN, Num (- 3), PosInf, Num (- 1 / 3)]) =
     [16383, 0, - 32768, 32767, - 10922] \<and>
   \<bar>of_int (sint (floatTo16BitPCM [Num (1 / 2), NaN, Num (- 3), PosInf, Num (- 1 / 3)] ! 4))
      - spec_scaled (- 1 / 3)\<bar> < 1 \<and>
   floatTo16BitPCM [Num (1 / 2), NaN, Num (- 3), PosInf, Num (- 1 / 3)] ! 1 = 0"
  using floatTo16BitPCM_spec [of "[Num (1 / 2), NaN, Num (- 3), PosInf, Num (- 1 / 3)]"]
  by (simp add: encodeSample_def Math_max_def Math_min_def js_trunc_def spec_scaled_def)

section \<open>Evaluation of the concrete inputs\<close>

lemmas world_defs = mom_def initial_def deliver_def toggleArm_def arm_def disarm_def start_def
  controllerCallbacks_def this_update_def new_SafetySentinel_def onopen_def onclose_def
  onerror_def requestWakeLock_def releaseWakeLock_def handleError_def sessionFulfilled_def
  handleMessage_def then_send_def triggerAlert_def evidenceSettled_def triggerAlert_resume_def
  captureEvidence_def tryLocation_def tryPhoto_def stop_def track_stop_def node_disconnect_def
  onaudioprocess_def alertLine_def canvas_toDataURL_def switchSilentMode_def

lemma armed_sentinel:
  "sentinelRef armed = Some
     \<lparr>callbacks = \<lparr>scope_silentMode = False,
                   scope_contact = \<lparr>name = ''Mom'', phone = ''+15550123''\<rparr>\<rparr>,
      mediaStream = Some Live, audioContext = Some Running, processor = Some NodeConnected,
      analyser = True, isConnected = True, sessionPromise = Some Fulfilled,
      socket = Some SocketOpen, reactions = [], transport = [], unhandled = []\<rparr>"
  by (simp add: armed_def world_defs)

lemma armed_present: "sentinelRef armed = Some (the (sentinelRef armed))"
  by (simp add: armed_sentinel)

lemma scream_trigger: "isTrigger scream"
  by (simp add: isTrigger_def scream_def)

section \<open>Acknowledgment of tool invocations\<close>

lemma then_send_all_Fulfilled:
  "sessionPromise s = Some Fulfilled \<Longrightarrow>
   then_send_all ms s = s\<lparr>transport := transport s @ ms\<rparr>"
  by (induction ms arbitrary: s) (simp_all add: then_send_def)

lemma then_send_all_Pending:
  "sessionPromise s = Some Pending \<Longrightarrow>
   then_send_all ms s = s\<lparr>reactions := reactions s @ ms\<rparr>"
  by (induction ms arbitrary: s) (simp_all add: then_send_def)

text \<open>
  With a trigger callback that returns normally and leaves the session object alone,
  the loop registers the acknowledgments of the distress calls, one each, in order.
\<close>

lemma handleCalls_returns:
  assumes nothrow: "\<And>r e v. snd (onEmergencyTriggered cbs r e v) = None"
    and keeps: "\<And>r e v. sentinelRef (fst (onEmergencyTriggered cbs r e v)) = sentinelRef v"
  shows "snd (handleCalls cbs fcs w) = None \<and>
         sentinelRef (fst (handleCalls cbs fcs w)) =
           map_option (then_send_all (acknowledgments fcs)) (sentinelRef w)"
proof (induction fcs arbitrary: w)
  case Nil
  show ?case by (simp add: acknowledgments_def option.map_ident)
next
  case (Cons fc fcs)
  show ?case
  proof (cases "fc_name fc = ''triggerEmergency''")
    case False
    with Cons show ?thesis by (simp add: acknowledgments_def isTrigger_def)
  next
    case True
    obtain w1 x where cb:
      "onEmergencyTriggered cbs (reason (fc_args fc)) (emotion (fc_args fc)) w = (w1, x)"
      by (cases "onEmergencyTriggered cbs (reason (fc_args fc)) (emotion (fc_args fc)) w")
    have x: "x = None"
      using nothrow [of "reason (fc_args fc)" "emotion (fc_args fc)" w] cb by simp
    have k: "sentinelRef w1 = sentinelRef w"
      using keeps [of "reason (fc_args fc)" "emotion (fc_args fc)" w] cb by simp
    show ?thesis
      using True cb x k Cons [of "this_update (then_send (acknowledgment fc)) w1"]
      by (simp add: acknowledgments_def isTrigger_def acknowledgment_def this_update_def
          option.map_comp comp_def)
  qed
qed

text \<open>What the loop does to the controller's state, with the controller's callbacks.\<close>

lemma handleCalls_controller:
  "logs (fst (handleCalls (controllerCallbacks scope) fcs w)) = logs w \<and>
   suspended (fst (handleCalls (controllerCallbacks scope) fcs w)) =
     suspended w @ map (suspension scope) (filter isTrigger fcs)"
proof (induction fcs arbitrary: w)
  case Nil
  show ?case by simp
next
  case (Cons fc fcs)
  show ?case
  proof (cases "fc_name fc = ''triggerEmergency''")
    case False
    with Cons show ?thesis by (simp add: isTrigger_def)
  next
    case True
    let ?w1 = "this_update (then_send (acknowledgment fc))
                 (triggerAlert scope (reason (fc_args fc)) (emotion (fc_args fc)) w)"
    have step: "handleCalls (controllerCallbacks scope) (fc # fcs) w =
                handleCalls (controllerCallbacks scope) fcs ?w1"
      using True by (simp add: controllerCallbacks_def acknowledgment_def Let_def)
    have w1: "logs ?w1 = logs w" "suspended ?w1 = suspended w @ [suspension scope fc]"
      by (simp_all add: this_update_def triggerAlert_def suspension_def Let_def)
    show ?thesis
      unfolding step using Cons [of ?w1] True w1 by (simp add: isTrigger_def)
  qed
qed

text \<open>The controller's trigger callback starts an async function: it never throws.\<close>

lemma controller_trigger_returns:
  "snd (onEmergencyTriggered (controllerCallbacks scope) r e v) = None"
  "sentinelRef (fst (onEmergencyTriggered (controllerCallbacks scope) r e v)) = sentinelRef v"
  by (simp_all add: controllerCallbacks_def triggerAlert_def Let_def)

text \<open>
  Claim C1, as the code has it. A message carrying function calls reaches the session
  wired to the controller's callbacks. \<^verbatim>\<open>handleMessage\<close> returns normally and has registered,
  on the connection promise, exactly one acknowledgment
  \<open>{id, name, response: {result: "ALERTS_SENT"}}\<close> for each call naming the distress tool,
  in order: handed to the transport at once when the promise is fulfilled, queued while
  it is pending and handed over when it fulfils. It has not waited for evidence capture:
  the log is unchanged and the alert runs it started are still suspended.
\<close>

theorem message_acknowledged:
  assumes "sentinelRef w = Some sn" and "toolCall msg = Some fcs"
  shows
    "(let (w', x) = handleMessage (controllerCallbacks (callbacks sn)) msg w
      in x = None \<and>
         (sessionPromise sn = Some Fulfilled \<longrightarrow>
            map_option transport (sentinelRef w') = Some (transport sn @ acknowledgments fcs)) \<and>
         (sessionPromise sn = Some Pending \<longrightarrow>
            map_option reactions (sentinelRef w') = Some (reactions sn @ acknowledgments fcs) \<and>
            map_option (transport \<circ> sessionFulfilled) (sentinelRef w') =
              Some (transport sn @ reactions sn @ acknowledgments fcs)) \<and>
         logs w' = logs w \<and>
         suspended w' = suspended w @ map (suspension (callbacks sn)) (filter isTrigger fcs))"
proof -
  let ?cbs = "controllerCallbacks (callbacks sn)"
  have r: "snd (handleCalls ?cbs fcs w) = None"
    "sentinelRef (fst (handleCalls ?cbs fcs w)) =
       Some (then_send_all (acknowledgments fcs) sn)"
    using handleCalls_returns [of ?cbs fcs w] controller_trigger_returns assms(1) by simp_all
  have c: "logs (fst (handleCalls ?cbs fcs w)) = logs w"
    "suspended (fst (handleCalls ?cbs fcs w)) =
       suspended w @ map (suspension (callbacks sn)) (filter isTrigger fcs)"
    using handleCalls_controller [of "callbacks sn" fcs w] by simp_all
  have f: "sessionPromise sn = Some Fulfilled \<Longrightarrow>
      transport (then_send_all (acknowledgments fcs) sn) = transport sn @ acknowledgments fcs"
    by (simp add: then_send_all_Fulfilled)
  have p: "sessionPromise sn = Some Pending \<Longrightarrow>
      reactions (then_send_all (acknowledgments fcs) sn) = reactions sn @ acknowledgments fcs \<and>
      transport (sessionFulfilled (then_send_all (acknowledgments fcs) sn)) =
        transport sn @ reactions sn @ acknowledgments fcs"
    by (simp add: then_send_all_Pending sessionFulfilled_def)
  show ?thesis
    using r c f p assms(2) by (simp add: handleMessage_def split_beta)
qed

theorem message_acknowledged_witness:
  "sentinelRef armed \<noteq> None \<and>
   map_option transport
     (sentinelRef (fst (handleMessage (controllerCallbacks (callbacks (the (sentinelRef armed))))
        \<lparr>toolCall = Some [scream]\<rparr> armed))) =
     Some [ToolResponse ''call-1'' ''triggerEmergency'' ''ALERTS_SENT''] \<and>
   logs (fst (handleMessage (controllerCallbacks (callbacks (the (sentinelRef armed))))
        \<lparr>toolCall = Some [scream]\<rparr> armed)) = [] \<and>
   length (suspended (fst (handleMessage (controllerCallbacks (callbacks (the (sentinelRef armed))))
        \<lparr>toolCall = Some [scream]\<rparr> armed))) = 1"
proof -
  have m: "toolCall \<lparr>toolCall = Some [scream]\<rparr> = Some [scream]" by simp
  have l: "logs armed = []" "suspended armed = []"
    by (simp_all add: armed_def world_defs)
  from message_acknowledged [OF armed_present m] l scream_trigger show ?thesis
    by (simp add: armed_sentinel split_beta acknowledgments_def acknowledgment_def scream_def)
qed

text \<open>
  Claim C1 as stated fails: \<^verbatim>\<open>handleMessage\<close> has no exception handler. With a trigger
  callback that throws, a message carrying one distress call leaves \<^verbatim>\<open>handleMessage\<close> by
  that exception and no acknowledgment has been sent or queued, although the connection
  promise is fulfilled.
\<close>

theorem throwing_callback_skips_acknowledgment:
  "isTrigger scream \<and>
   snd (handleMessage throwingCallbacks \<lparr>toolCall = Some [scream]\<rparr> armed) =
     Some (JsError ''Error'' ''trigger failed'') \<and>
   map_option sessionPromise
     (sentinelRef (fst (handleMessage throwingCallbacks \<lparr>toolCall = Some [scream]\<rparr> armed))) =
     Some (Some Fulfilled) \<and>
   map_option transport
     (sentinelRef (fst (handleMessage throwingCallbacks \<lparr>toolCall = Some [scream]\<rparr> armed))) =
     Some [] \<and>
   map_option reactions
     (sentinelRef (fst (handleMessage throwingCallbacks \<lparr>toolCall = Some [scream]\<rparr> armed))) =
     Some []"
  by (simp add: handleMessage_def throwingCallbacks_def scream_def armed_sentinel isTrigger_def)

section \<open>The alert pipeline\<close>

lemma captureEvidence_frame:
  "\<exists>ev w'. captureEvidence env w = (Returns ev, w') \<and> logs w' = logs w \<and>
     suspended w' = suspended w \<and> sentinelRef w' = sentinelRef w"
  by (simp add: captureEvidence_def tryLocation_def tryPhoto_def Let_def
      split: outcome.splits prod.splits)

lemma triggerAlert_resume_effect:
  "\<exists>loc img.
     logs (triggerAlert_resume k env now w) =
       \<lparr>timestamp = now, log_type = s_reason k, log_emotion = s_emotion k, location = loc,
        imageUrl = img, isSilent = s_silentMode k\<rparr> # logs w \<and>
     suspended (triggerAlert_resume k env now w) = suspended w \<and>
     sentinelRef (triggerAlert_resume k env now w) = sentinelRef w"
proof -
  obtain ev w' where c: "captureEvidence env w = (Returns ev, w')" "logs w' = logs w"
    "suspended w' = suspended w" "sentinelRef w' = sentinelRef w"
    using captureEvidence_frame [of env w] by blast
  then show ?thesis by (simp add: triggerAlert_resume_def Let_def)
qed

lemma evidenceSettled_effect:
  assumes "i < length (suspended w)"
  shows "\<exists>loc img.
     logs (evidenceSettled i env now w) =
       \<lparr>timestamp = now, log_type = s_reason (suspended w ! i),
        log_emotion = s_emotion (suspended w ! i), location = loc, imageUrl = img,
        isSilent = s_silentMode (suspended w ! i)\<rparr> # logs w \<and>
     suspended (evidenceSettled i env now w) = take i (suspended w) @ drop (Suc i) (suspended w) \<and>
     sentinelRef (evidenceSettled i env now w) = sentinelRef w"
  using assms
    triggerAlert_resume_effect [of "suspended w ! i" env now
      "w\<lparr>suspended := take i (suspended w) @ drop (Suc i) (suspended w)\<rparr>"]
  by (simp add: evidenceSettled_def)

lemma evidenceSettled_idle:
  "\<not> i < length (suspended w) \<Longrightarrow> evidenceSettled i env now w = w"
  by (simp add: evidenceSettled_def)

text \<open>No operation of the session or of the controller reads the confidence.\<close>

lemma handleCalls_confidence:
  "handleCalls cbs (map (\<lambda>fc. fc\<lparr>fc_args := (fc_args fc)\<lparr>confidence := c fc\<rparr>\<rparr>) fcs) w =
   handleCalls cbs fcs w"
  by (induction fcs arbitrary: w) (simp_all add: Let_def split: prod.splits option.splits)

text \<open>One distress call delivered to a session, and the settling of its capture.\<close>

lemma deliver_single:
  assumes "sentinelRef w = Some sn" and "isTrigger fc"
  shows "deliver (Message \<lparr>toolCall = Some [fc]\<rparr>) w =
           this_update (then_send (acknowledgment fc))
             (triggerAlert (callbacks sn) (reason (fc_args fc)) (emotion (fc_args fc)) w)"
  using assms
  by (simp add: deliver_def handleMessage_def controllerCallbacks_def isTrigger_def
      acknowledgment_def Let_def)

lemma invocation_effect:
  assumes "sentinelRef w = Some sn" and "isTrigger fc"
  defines "w1 \<equiv> deliver (Message \<lparr>toolCall = Some [fc]\<rparr>) w"
  shows "\<not> scope_silentMode (callbacks sn) \<longrightarrow> status w1 = DANGER \<and> \<not> blackoutMode w1"
    and "logs w1 = logs w"
    and "suspended w1 = suspended w @ [suspension (callbacks sn) fc]"
    and "sentinelRef w1 = Some (then_send (acknowledgment fc) sn)"
    and "\<exists>loc img.
            logs (evidenceSettled (length (suspended w)) env now w1) =
              \<lparr>timestamp = now, log_type = reason (fc_args fc),
               log_emotion = emotion (fc_args fc), location = loc, imageUrl = img,
               isSilent = scope_silentMode (callbacks sn)\<rparr> # logs w \<and>
            suspended (evidenceSettled (length (suspended w)) env now w1) = suspended w"
proof -
  have w1: "w1 = this_update (then_send (acknowledgment fc))
                    (triggerAlert (callbacks sn) (reason (fc_args fc)) (emotion (fc_args fc)) w)"
    unfolding w1_def by (rule deliver_single [OF assms(1,2)])
  show "\<not> scope_silentMode (callbacks sn) \<longrightarrow> status w1 = DANGER \<and> \<not> blackoutMode w1"
    unfolding w1 by (simp add: this_update_def triggerAlert_def Let_def)
  show lg: "logs w1 = logs w"
    unfolding w1 by (simp add: this_update_def triggerAlert_def Let_def)
  show sp: "suspended w1 = suspended w @ [suspension (callbacks sn) fc]"
    unfolding w1 by (simp add: this_update_def triggerAlert_def suspension_def Let_def)
  show "sentinelRef w1 = Some (then_send (acknowledgment fc) sn)"
    unfolding w1 using assms(1) by (simp add: this_update_def triggerAlert_def Let_def)
  have i: "length (suspended w) < length (suspended w1)" by (simp add: sp)
  from evidenceSettled_effect [OF i, of env now]
  show "\<exists>loc img.
            logs (evidenceSettled (length (suspended w)) env now w1) =
              \<lparr>timestamp = now, log_type = reason (fc_args fc),
               log_emotion = emotion (fc_args fc), location = loc, imageUrl = img,
               isSilent = scope_silentMode (callbacks sn)\<rparr> # logs w \<and>
            suspended (evidenceSettled (length (suspended w)) env now w1) = suspended w"
    by (simp add: lg sp suspension_def)
qed

text \<open>What each event does to the log and to the suspended alerts.\<close>

lemma toggleArm_frame:
  "logs (toggleArm w) = logs w \<and> suspended (toggleArm w) = suspended w \<and>
   (sentinelRef w \<noteq> None \<longrightarrow> sentinelRef (toggleArm w) \<noteq> None)"
  by (simp add: toggleArm_def arm_def disarm_def start_def controllerCallbacks_def
      handleError_def releaseWakeLock_def this_update_def Let_def split: option.splits)

lemma session_event_frame:
  assumes "sentinelRef w = Some sn"
    and "ev = Open \<or> ev = Close \<or> ev = ConnectionError m \<or> ev = SessionFulfilled \<or> ev = Frame e"
  shows "logs (deliver ev w) = logs w \<and> suspended (deliver ev w) = suspended w \<and>
         sentinelRef (deliver ev w) \<noteq> None"
  using assms
  by (auto simp: deliver_def onopen_def onclose_def onerror_def onaudioprocess_def
      controllerCallbacks_def handleError_def releaseWakeLock_def requestWakeLock_def
      this_update_def Let_def split: option.splits wake_lock_answer.splits)

lemma message_frame:
  assumes "sentinelRef w = Some sn"
  shows "logs (deliver (Message msg) w) = logs w \<and>
         suspended (deliver (Message msg) w) =
           suspended w @ map (suspension (callbacks sn)) (invocations (Message msg)) \<and>
         sentinelRef (deliver (Message msg) w) \<noteq> None"
proof (cases "toolCall msg")
  case None
  with assms show ?thesis by (simp add: deliver_def handleMessage_def)
next
  case (Some fcs)
  let ?cbs = "controllerCallbacks (callbacks sn)"
  have "sentinelRef (fst (handleCalls ?cbs fcs w)) \<noteq> None"
    using handleCalls_returns [of ?cbs fcs w] controller_trigger_returns assms by simp
  with Some assms handleCalls_controller [of "callbacks sn" fcs w] show ?thesis
    by (simp add: deliver_def handleMessage_def)
qed

lemma deliver_count:
  assumes "sentinelRef w \<noteq> None"
  shows "sentinelRef (deliver ev w) \<noteq> None \<and>
         length (logs (deliver ev w)) + length (suspended (deliver ev w)) =
           length (logs w) + length (suspended w) + length (invocations ev) \<and>
         (\<exists>new. logs (deliver ev w) = new @ logs w)"
proof -
  obtain sn where sn: "sentinelRef w = Some sn" using assms by auto
  show ?thesis
  proof (cases ev)
    case ToggleArm
    with toggleArm_frame [of w] assms show ?thesis by (simp add: deliver_def)
  next
    case (EvidenceSettled i env now)
    show ?thesis
    proof (cases "i < length (suspended w)")
      case True
      from evidenceSettled_effect [OF True, of env now] obtain loc img where
        e: "logs (evidenceSettled i env now w) =
              \<lparr>timestamp = now, log_type = s_reason (suspended w ! i),
               log_emotion = s_emotion (suspended w ! i), location = loc, imageUrl = img,
               isSilent = s_silentMode (suspended w ! i)\<rparr> # logs w"
          "suspended (evidenceSettled i env now w) =
             take i (suspended w) @ drop (Suc i) (suspended w)"
          "sentinelRef (evidenceSettled i env now w) = sentinelRef w"
        by blast
      with True EvidenceSettled assms show ?thesis by (simp add: deliver_def)
    next
      case False
      with EvidenceSettled assms show ?thesis by (simp add: deliver_def evidenceSettled_idle)
    qed
  next
    case (Message msg)
    with message_frame [OF sn, of msg] show ?thesis by simp
  next
    case Open
    with session_event_frame [OF sn, of ev] show ?thesis by simp
  next
    case Close
    with session_event_frame [OF sn, of ev] show ?thesis by simp
  next
    case (ConnectionError m)
    with session_event_frame [OF sn, of ev m] show ?thesis by simp
  next
    case SessionFulfilled
    with session_event_frame [OF sn, of ev] show ?thesis by simp
  next
    case (Frame e)
    with session_event_frame [OF sn, of ev _ e] show ?thesis by simp
  next
    case SwitchSilentMode
    with assms show ?thesis by (simp add: deliver_def switchSilentMode_def)
  qed
qed

lemma run_count:
  assumes "sentinelRef w \<noteq> None"
  shows "length (logs (run evs w)) + length (suspended (run evs w)) =
           length (logs w) + length (suspended w) + length (concat (map invocations evs)) \<and>
         (\<exists>new. logs (run evs w) = new @ logs w)"
  using assms
proof (induction evs arbitrary: w)
  case Nil
  show ?case by simp
next
  case (Cons ev evs)
  from deliver_count [OF Cons.prems, of ev] obtain new where
    d: "sentinelRef (deliver ev w) \<noteq> None"
      "length (logs (deliver ev w)) + length (suspended (deliver ev w)) =
         length (logs w) + length (suspended w) + length (invocations ev)"
      "logs (deliver ev w) = new @ logs w"
    by blast
  from Cons.IH [OF d(1)] obtain new' where
    r: "length (logs (run evs (deliver ev w))) + length (suspended (run evs (deliver ev w))) =
          length (logs (deliver ev w)) + length (suspended (deliver ev w)) +
          length (concat (map invocations evs))"
      "logs (run evs (deliver ev w)) = new' @ logs (deliver ev w)"
    by blast
  from d r show ?case by simp
qed

text \<open>The same account with the contents: what every entry and every run carries.\<close>

lemma settle_mset:
  assumes "i < length xs"
  shows "add_mset (f (xs ! i)) (mset (map f (take i xs @ drop (Suc i) xs))) = mset (map f xs)"
proof -
  have "map f xs = map f (take i xs @ xs ! i # drop (Suc i) xs)"
    using id_take_nth_drop [OF assms] by simp
  then have "mset (map f xs) = mset (map f (take i xs @ xs ! i # drop (Suc i) xs))"
    by (rule arg_cong)
  then show ?thesis by simp
qed

lemma deliver_mset:
  "mset (map entryKey (logs (deliver ev w))) + mset (map runKey (suspended (deliver ev w))) =
   mset (map entryKey (logs w)) + mset (map runKey (suspended w)) +
   mset (map runKey (delivered [ev] w))"
proof (cases ev)
  case ToggleArm
  with toggleArm_frame [of w] show ?thesis
    by (simp add: deliver_def split: option.splits)
next
  case SwitchSilentMode
  then show ?thesis
    by (simp add: deliver_def switchSilentMode_def split: option.splits)
next
  case (EvidenceSettled i env now)
  show ?thesis
  proof (cases "i < length (suspended w)")
    case True
    from evidenceSettled_effect [OF True, of env now] obtain loc img where
      e: "logs (evidenceSettled i env now w) =
            \<lparr>timestamp = now, log_type = s_reason (suspended w ! i),
             log_emotion = s_emotion (suspended w ! i), location = loc, imageUrl = img,
             isSilent = s_silentMode (suspended w ! i)\<rparr> # logs w"
        "suspended (evidenceSettled i env now w) =
           take i (suspended w) @ drop (Suc i) (suspended w)"
      by blast
    have k: "entryKey \<lparr>timestamp = now, log_type = s_reason (suspended w ! i),
             log_emotion = s_emotion (suspended w ! i), location = loc, imageUrl = img,
             isSilent = s_silentMode (suspended w ! i)\<rparr> = runKey (suspended w ! i)"
      by (simp add: entryKey_def runKey_def)
    from e k settle_mset [OF True, of runKey] EvidenceSettled show ?thesis
      by (simp add: deliver_def split: option.splits)
  next
    case False
    with EvidenceSettled show ?thesis
      by (simp add: deliver_def evidenceSettled_idle split: option.splits)
  qed
next
  case (Message msg)
  show ?thesis
  proof (cases "sentinelRef w")
    case None
    with Message show ?thesis by (simp add: deliver_def)
  next
    case (Some sn)
    with Message message_frame [OF Some, of msg] show ?thesis by simp
  qed
next
  case Open
  show ?thesis
  proof (cases "sentinelRef w")
    case None
    with Open show ?thesis by (simp add: deliver_def)
  next
    case (Some sn)
    with Open session_event_frame [OF Some, of ev] show ?thesis by simp
  qed
next
  case Close
  show ?thesis
  proof (cases "sentinelRef w")
    case None
    with Close show ?thesis by (simp add: deliver_def)
  next
    case (Some sn)
    with Close session_event_frame [OF Some, of ev] show ?thesis by simp
  qed
next
  case (ConnectionError m)
  show ?thesis
  proof (cases "sentinelRef w")
    case None
    with ConnectionError show ?thesis by (simp add: deliver_def)
  next
    case (Some sn)
    with ConnectionError session_event_frame [OF Some, of ev m] show ?thesis by simp
  qed
next
  case SessionFulfilled
  show ?thesis
  proof (cases "sentinelRef w")
    case None
    with SessionFulfilled show ?thesis by (simp add: deliver_def)
  next
    case (Some sn)
    with SessionFulfilled session_event_frame [OF Some, of ev] show ?thesis by simp
  qed
next
  case (Frame e)
  show ?thesis
  proof (cases "sentinelRef w")
    case None
    with Frame show ?thesis by (simp add: deliver_def)
  next
    case (Some sn)
    with Frame session_event_frame [OF Some, of ev _ e] show ?thesis by simp
  qed
qed

lemma run_mset:
  "mset (map entryKey (logs (run evs w))) + mset (map runKey (suspended (run evs w))) =
   mset (map entryKey (logs w)) + mset (map runKey (suspended w)) +
   mset (map runKey (delivered evs w))"
proof (induction evs arbitrary: w)
  case Nil
  show ?case by simp
next
  case (Cons ev evs)
  have d: "delivered (ev # evs) w = delivered [ev] w @ delivered evs (deliver ev w)"
    by simp
  show ?case
    unfolding d using Cons [of "deliver ev w"] deliver_mset [of ev w]
    by (simp add: ac_simps)
qed

text \<open>A successful arm builds the session with the scope of that run of \<^verbatim>\<open>toggleArm\<close>.\<close>

lemma arm_scope:
  assumes "\<not> isArmed v" and "name (contact v) \<noteq> []" and "phone (contact v) \<noteq> []"
    and "camera (navigator v) = None"
  shows "map_option callbacks (sentinelRef (toggleArm v)) =
           Some \<lparr>scope_silentMode = silentMode v, scope_contact = contact v\<rparr>"
  using assms
  by (simp add: toggleArm_def arm_def start_def controllerCallbacks_def handleError_def
      releaseWakeLock_def this_update_def new_SafetySentinel_def Let_def split: option.splits)

text \<open>
  Claim C2, as the code has it. A distress call reaches a session wired to the
  controller. Whatever its confidence, present or absent, the result is the same:
  nothing reads it. The handler reads the silent flag of its scope, the value of
  \<^verbatim>\<open>silentMode\<close> in the run of \<^verbatim>\<open>toggleArm\<close> that armed the session (last part of the
  statement). When that flag is off, the status becomes DANGER and the blackout flag is
  cleared. One run of the pipeline is suspended with the call's reason and emotion and
  that flag, and when its capture settles, exactly one entry carrying them is put at the
  front of the log. The same holds for any suspended run in any state: when its capture
  settles, exactly one entry carrying what the run carries is put at the front of the
  log and the run is gone. Over any
  sequence of events, the entries of the log together with the suspended runs are the
  ones there were before together with one for each distress call delivered, each with
  its reason, its emotion and the flag of the session it was delivered to; the old log
  stays as the tail. So once every capture has settled, N calls have added exactly N
  entries, the latest settled first.
\<close>

theorem alert_pipeline:
  assumes "sentinelRef w = Some sn" and "isTrigger fc"
  shows
    "(let scope = callbacks sn;
          w1 = deliver (Message \<lparr>toolCall = Some [fc]\<rparr>) w
      in (\<forall>c. deliver (Message \<lparr>toolCall =
                  Some [fc\<lparr>fc_args := (fc_args fc)\<lparr>confidence := c\<rparr>\<rparr>]\<rparr>) w = w1) \<and>
         (\<not> scope_silentMode scope \<longrightarrow> status w1 = DANGER \<and> \<not> blackoutMode w1) \<and>
         logs w1 = logs w \<and>
         suspended w1 = suspended w @ [suspension scope fc] \<and>
         (\<forall>env now. \<exists>loc img.
            logs (evidenceSettled (length (suspended w)) env now w1) =
              \<lparr>timestamp = now, log_type = reason (fc_args fc),
               log_emotion = emotion (fc_args fc), location = loc, imageUrl = img,
               isSilent = scope_silentMode scope\<rparr> # logs w \<and>
            suspended (evidenceSettled (length (suspended w)) env now w1) = suspended w)) \<and>
     (\<forall>v i env now. i < length (suspended v) \<longrightarrow>
        (\<exists>loc img.
           logs (evidenceSettled i env now v) =
             \<lparr>timestamp = now, log_type = s_reason (suspended v ! i),
              log_emotion = s_emotion (suspended v ! i), location = loc, imageUrl = img,
              isSilent = s_silentMode (suspended v ! i)\<rparr> # logs v \<and>
           suspended (evidenceSettled i env now v) =
             take i (suspended v) @ drop (Suc i) (suspended v))) \<and>
     (\<forall>evs.
        mset (map entryKey (logs (run evs w))) + mset (map runKey (suspended (run evs w))) =
          mset (map entryKey (logs w)) + mset (map runKey (suspended w)) +
          mset (map runKey (delivered evs w)) \<and>
        length (delivered evs w) = length (concat (map invocations evs)) \<and>
        length (logs (run evs w)) + length (suspended (run evs w)) =
          length (logs w) + length (suspended w) + length (concat (map invocations evs)) \<and>
        (\<exists>new. logs (run evs w) = new @ logs w)) \<and>
     (\<forall>v. \<not> isArmed v \<and> name (contact v) \<noteq> [] \<and> phone (contact v) \<noteq> [] \<and>
          camera (navigator v) = None \<longrightarrow>
        map_option callbacks (sentinelRef (toggleArm v)) =
          Some \<lparr>scope_silentMode = silentMode v, scope_contact = contact v\<rparr>)"
proof -
  let ?w1 = "deliver (Message \<lparr>toolCall = Some [fc]\<rparr>) w"
  have conf: "\<And>c. deliver (Message \<lparr>toolCall =
                  Some [fc\<lparr>fc_args := (fc_args fc)\<lparr>confidence := c\<rparr>\<rparr>]\<rparr>) w = ?w1"
    using assms
      handleCalls_confidence [of "controllerCallbacks (callbacks sn)" "\<lambda>_. c" "[fc]" w for c]
    by (simp add: deliver_def handleMessage_def)
  have single: "(\<forall>c. deliver (Message \<lparr>toolCall =
                  Some [fc\<lparr>fc_args := (fc_args fc)\<lparr>confidence := c\<rparr>\<rparr>]\<rparr>) w = ?w1) \<and>
         (\<not> scope_silentMode (callbacks sn) \<longrightarrow> status ?w1 = DANGER \<and> \<not> blackoutMode ?w1) \<and>
         logs ?w1 = logs w \<and>
         suspended ?w1 = suspended w @ [suspension (callbacks sn) fc] \<and>
         (\<forall>env now. \<exists>loc img.
            logs (evidenceSettled (length (suspended w)) env now ?w1) =
              \<lparr>timestamp = now, log_type = reason (fc_args fc),
               log_emotion = emotion (fc_args fc), location = loc, imageUrl = img,
               isSilent = scope_silentMode (callbacks sn)\<rparr> # logs w \<and>
            suspended (evidenceSettled (length (suspended w)) env now ?w1) = suspended w)"
    using conf invocation_effect(1,2,3) [OF assms] invocation_effect(5) [OF assms] by blast
  have settle: "\<And>v i env now. i < length (suspended v) \<longrightarrow>
        (\<exists>loc img.
           logs (evidenceSettled i env now v) =
             \<lparr>timestamp = now, log_type = s_reason (suspended v ! i),
              log_emotion = s_emotion (suspended v ! i), location = loc, imageUrl = img,
              isSilent = s_silentMode (suspended v ! i)\<rparr> # logs v \<and>
           suspended (evidenceSettled i env now v) =
             take i (suspended v) @ drop (Suc i) (suspended v))"
    using evidenceSettled_effect by blast
  have cnt: "length (logs (run evs w)) + length (suspended (run evs w)) =
             length (logs w) + length (suspended w) + length (concat (map invocations evs)) \<and>
           (\<exists>new. logs (run evs w) = new @ logs w)" for evs
    using run_count [of w] assms(1) by simp
  have ms: "mset (map entryKey (logs (run evs w))) + mset (map runKey (suspended (run evs w))) =
          mset (map entryKey (logs w)) + mset (map runKey (suspended w)) +
          mset (map runKey (delivered evs w))" for evs
    by (rule run_mset)
  have len: "length (delivered evs w) = length (concat (map invocations evs))" for evs
  proof -
    have "size (mset (map entryKey (logs (run evs w))) +
                mset (map runKey (suspended (run evs w)))) =
          size (mset (map entryKey (logs w)) + mset (map runKey (suspended w)) +
                mset (map runKey (delivered evs w)))"
      using ms [of evs] by simp
    with cnt [of evs] show ?thesis by simp
  qed
  have scope: "\<And>v. \<not> isArmed v \<and> name (contact v) \<noteq> [] \<and> phone (contact v) \<noteq> [] \<and>
          camera (navigator v) = None \<longrightarrow>
        map_option callbacks (sentinelRef (toggleArm v)) =
          Some \<lparr>scope_silentMode = silentMode v, scope_contact = contact v\<rparr>"
    using arm_scope by blast
  show ?thesis
    unfolding Let_def using single settle cnt ms len scope by blast
qed

theorem alert_pipeline_witness:
  "sentinelRef armed \<noteq> None \<and> isTrigger scream \<and>
   status (deliver (Message \<lparr>toolCall = Some [scream]\<rparr>) armed) = DANGER \<and>
   logs (run [Message \<lparr>toolCall = Some [scream]\<rparr>, EvidenceSettled 0 timedOut 1000] armed) =
     [\<lparr>timestamp = 1000, log_type = ''chaotic scream'', log_emotion = ''MORTAL_FEAR'',
       location = ''Unknown Location'', imageUrl = ''data:image/jpeg;base64,AAAA'',
       isSilent = False\<rparr>]"
proof -
  from alert_pipeline [OF armed_present scream_trigger] scream_trigger show ?thesis
    by (simp add: Let_def armed_def scream_def timedOut_def world_defs acknowledgment_def
        suspension_def)
qed

text \<open>
  Claim C2 as stated fails where it speaks of the current silent mode. The silent mode
  is switched on, the system is armed, the connection opens, the system is disarmed and
  the silent mode is switched off again. The connection is still open and delivers a
  distress call: silent mode is off, yet the status does not become DANGER, and the entry
  logged when the capture settles says silent. The handler read the flag of its scope.
\<close>

theorem stale_silent_flag:
  "silentMode silentThenLoud = False \<and>
   status silentThenLoud = IDLE \<and>
   isTrigger scream \<and>
   status (deliver (Message \<lparr>toolCall = Some [scream]\<rparr>) silentThenLoud) = IDLE \<and>
   silentMode (run [Message \<lparr>toolCall = Some [scream]\<rparr>, EvidenceSettled 0 timedOut 1000]
      silentThenLoud) = False \<and>
   logs (run [Message \<lparr>toolCall = Some [scream]\<rparr>, EvidenceSettled 0 timedOut 1000]
      silentThenLoud) =
     [\<lparr>timestamp = 1000, log_type = ''chaotic scream'', log_emotion = ''MORTAL_FEAR'',
       location = ''Unknown Location'', imageUrl = ''data:image/jpeg;base64,AAAA'',
       isSilent = True\<rparr>]"
  by (simp add: silentThenLoud_def scream_def timedOut_def isTrigger_def world_defs)

section \<open>Error surfacing\<close>


text \<open>
  Claim C3 at its failing input. The contact is filled in, the camera is granted and the
  microphone request is denied. \<^verbatim>\<open>start\<close> catches the rejection and reports it through the
  error callback, which shows the error, sets the status to IDLE, clears the armed flag
  and releases the wake lock; \<^verbatim>\<open>start\<close> then returns normally and the rest of the arm
  attempt sets the armed flag again. The attempt ends armed, in IDLE, with the error shown.
\<close>

theorem microphone_failure_leaves_armed:
  "\<not> isArmed micDenied \<and>
   isArmed (toggleArm micDenied) \<and>
   status (toggleArm micDenied) = IDLE \<and>
   wakeLockRef (toggleArm micDenied) = None \<and>
   errorState (toggleArm micDenied) =
     \<lparr>shown = True, title = ''Sentinel System Error'',
      message = ''Microphone permission was denied.'', action = None\<rparr>"
  by (simp add: micDenied_def world_defs)

section \<open>Release of resources\<close>

text \<open>\<^verbatim>\<open>stop\<close> as one update of the session object.\<close>

lemma stop_eq:
  "stop sn =
     sn\<lparr>isConnected := False,
        mediaStream := map_option (\<lambda>t. Ended) (mediaStream sn),
        processor := map_option (\<lambda>n. NodeDisconnected) (processor sn),
        audioContext := map_option (\<lambda>c. Closed) (audioContext sn),
        unhandled := unhandled sn @
          (if audioContext sn = Some Closed then [''InvalidStateError''] else [])\<rparr>"
proof (cases "audioContext sn")
  case None
  then show ?thesis
    by (cases "mediaStream sn"; cases "processor sn")
       (simp_all add: stop_def track_stop_def node_disconnect_def)
next
  case (Some c)
  then show ?thesis
    by (cases c; cases "mediaStream sn"; cases "processor sn")
       (simp_all add: stop_def track_stop_def node_disconnect_def)
qed

lemma stop_fields:
  "\<not> isConnected (stop sn) \<and> mediaStream (stop sn) \<noteq> Some Live \<and>
   processor (stop sn) \<noteq> Some NodeConnected \<and> audioContext (stop sn) \<noteq> Some Running \<and>
   socket (stop sn) = socket sn \<and> sessionPromise (stop sn) = sessionPromise sn \<and>
   transport (stop sn) = transport sn \<and> reactions (stop sn) = reactions sn \<and>
   callbacks (stop sn) = callbacks sn \<and> analyser (stop sn) = analyser sn"
  by (simp add: stop_eq)

lemma disarm_fields:
  "sentinelRef (disarm w) = map_option stop (sentinelRef w) \<and> wakeLockRef (disarm w) = None \<and>
   videoRef (disarm w) = videoRef w \<and> \<not> isArmed (disarm w) \<and> status (disarm w) = IDLE \<and>
   volume (disarm w) = Num 0 \<and> \<not> blackoutMode (disarm w) \<and> logs (disarm w) = logs w \<and>
   suspended (disarm w) = suspended w"
  by (cases "wakeLockRef w") (simp_all add: disarm_def releaseWakeLock_def Let_def)





section \<open>Evidence capture never raises\<close>





section \<open>Camera failure\<close>

text \<open>
  Claim C7. The system is not armed, the contact has a name and a phone number, and the
  camera request fails. The arm attempt ends in IDLE and not armed; the error record
  shows the title \<open>Camera Permission Failed\<close> and the message mapped from the failure,
  with four different messages for permission denied, no device, device busy and any
  other failure. The only capability request issued is the one for the camera: no
  session is constructed and no microphone request is made.
\<close>

theorem camera_failure_aborts:
  assumes "\<not> isArmed w" and "name (contact w) \<noteq> []" and "phone (contact w) \<noteq> []"
    and "camera (navigator w) = Some e"
  shows "status (toggleArm w) = IDLE \<and> \<not> isArmed (toggleArm w) \<and>
     errorState (toggleArm w) =
       \<lparr>shown = True, title = ''Camera Permission Failed'', message = cameraMessage e,
        action = None\<rparr> \<and>
     acquisitions (toggleArm w) = acquisitions w @ [Camera] \<and>
     sentinelRef (toggleArm w) = sentinelRef w \<and>
     distinct [cameraMessage (JsError ''NotAllowedError'' m1),
               cameraMessage (JsError ''NotFoundError'' m2),
               cameraMessage (JsError ''NotReadableError'' m3),
               cameraMessage NonError]"
  using assms
  by (simp add: toggleArm_def arm_def handleError_def releaseWakeLock_def Let_def
      split: option.splits)

theorem camera_failure_aborts_witness:
  "status (toggleArm (mom\<lparr>navigator := (navigator mom)\<lparr>camera :=
       Some (JsError ''NotAllowedError'' ''Permission denied'')\<rparr>\<rparr>)) = IDLE \<and>
   message (errorState (toggleArm (mom\<lparr>navigator := (navigator mom)\<lparr>camera :=
       Some (JsError ''NotAllowedError'' ''Permission denied'')\<rparr>\<rparr>))) =
     ''You have blocked camera access. Please go to your browser settings and allow camera access for this site to use the safety features.'' \<and>
   acquisitions (toggleArm (mom\<lparr>navigator := (navigator mom)\<lparr>camera :=
       Some (JsError ''NotAllowedError'' ''Permission denied'')\<rparr>\<rparr>)) = [Camera]"
proof -
  let ?w = "mom\<lparr>navigator := (navigator mom)\<lparr>camera :=
       Some (JsError ''NotAllowedError'' ''Permission denied'')\<rparr>\<rparr>"
  have h: "\<not> isArmed ?w" "name (contact ?w) \<noteq> []" "phone (contact ?w) \<noteq> []"
    "camera (navigator ?w) = Some (JsError ''NotAllowedError'' ''Permission denied'')"
    by (simp_all add: mom_def initial_def)
  have a: "acquisitions ?w = []" by (simp add: mom_def initial_def)
  from camera_failure_aborts [OF h] a show ?thesis by simp
qed

section \<open>Repeated stop\<close>

lemma stop_new: "stop (new_SafetySentinel scope) = new_SafetySentinel scope"
  by (simp add: stop_eq new_SafetySentinel_def)

lemma stop_again:
  "stop ((stop sn)\<lparr>unhandled := u\<rparr>) =
     (stop sn)\<lparr>unhandled := u @ (if audioContext sn = None then [] else [''InvalidStateError''])\<rparr>"
  by (cases "audioContext sn")
     (simp_all add: stop_eq option.map_comp comp_def)

lemma stop_repeated:
  "(stop ^^ n) (stop sn) =
     (stop sn)\<lparr>unhandled := unhandled (stop sn) @
        (if audioContext sn = None then [] else replicate n ''InvalidStateError'')\<rparr>"
proof (induction n)
  case 0
  show ?case by simp
next
  case (Suc n)
  show ?case
    by (simp add: Suc stop_again replicate_append_same)
qed

lemma disarm_disarm:
  "status (disarm w) = IDLE \<and> status (disarm (disarm w)) = IDLE \<and>
   (disarm (disarm w))\<lparr>sentinelRef := None\<rparr> = (disarm w)\<lparr>sentinelRef := None\<rparr> \<and>
   sentinelRef (disarm (disarm w)) = map_option (stop \<circ> stop) (sentinelRef w)"
  by (cases "wakeLockRef w")
     (simp_all add: disarm_def releaseWakeLock_def Let_def option.map_comp)

text \<open>
  Claim C8, as the code has it. \<^verbatim>\<open>stop\<close> throws nothing and leaves the connection flag
  false; on a session never started it changes nothing. Called again any number of
  times, it leaves the session as the first call left it, but for one thing: a session
  that has an audio context closes it again on every further call, and each such
  \<^verbatim>\<open>close()\<close> returns a rejected promise (\<^verbatim>\<open>InvalidStateError\<close>) that nobody observes. A
  disarm leaves the status IDLE, a second disarm too, and the second changes nothing
  outside the session object, which it stops once more.
\<close>

theorem stop_repeatable:
  "\<not> isConnected (stop sn) \<and>
   stop (new_SafetySentinel scope) = new_SafetySentinel scope \<and>
   (\<forall>n. (stop ^^ n) (stop sn) =
      (stop sn)\<lparr>unhandled := unhandled (stop sn) @
         (if audioContext sn = None then [] else replicate n ''InvalidStateError'')\<rparr>) \<and>
   status (disarm w) = IDLE \<and> status (disarm (disarm w)) = IDLE \<and>
   (disarm (disarm w))\<lparr>sentinelRef := None\<rparr> = (disarm w)\<lparr>sentinelRef := None\<rparr> \<and>
   sentinelRef (disarm (disarm w)) = map_option (stop \<circ> stop) (sentinelRef w)"
  using stop_fields [of sn] stop_new [of scope] stop_repeated [of _ sn] disarm_disarm [of w]
  by simp

theorem stop_repeatable_witness:
  "map_option ((stop ^^ 2) \<circ> stop) (sentinelRef armed) =
     map_option (\<lambda>sn. (stop sn)\<lparr>unhandled := [''InvalidStateError'', ''InvalidStateError'']\<rparr>)
       (sentinelRef armed) \<and>
   status (disarm (disarm armed)) = IDLE"
proof -
  let ?sn = "the (sentinelRef armed)"
  from stop_repeatable [of ?sn "callbacks ?sn" armed]
  have a: "(stop ^^ 2) (stop ?sn) =
      (stop ?sn)\<lparr>unhandled := unhandled (stop ?sn) @
         (if audioContext ?sn = None then [] else replicate 2 ''InvalidStateError'')\<rparr>"
    and b: "status (disarm (disarm armed)) = IDLE"
    by blast+
  have c: "audioContext ?sn \<noteq> None" "unhandled (stop ?sn) = []"
    by (simp_all add: armed_sentinel stop_eq)
  from a b c show ?thesis
    by (simp add: armed_sentinel numeral_2_eq_2)
qed

text \<open>
  Claim C8 as stated fails in its last part. On the armed and connected system the first
  \<^verbatim>\<open>stop\<close> (and the first disarm) tears the session down without any failure; the second
  runs the teardown again on the handles it kept, and its \<^verbatim>\<open>close()\<close> of the audio context
  that is already closed is rejected with \<^verbatim>\<open>InvalidStateError\<close>.
\<close>

theorem repeated_stop_rejected:
  "map_option (unhandled \<circ> stop) (sentinelRef armed) = Some [] \<and>
   map_option (unhandled \<circ> stop \<circ> stop) (sentinelRef armed) = Some [''InvalidStateError''] \<and>
   map_option unhandled (sentinelRef (disarm armed)) = Some [] \<and>
   map_option unhandled (sentinelRef (disarm (disarm armed))) = Some [''InvalidStateError'']"
  by (simp add: disarm_fields disarm_disarm armed_sentinel stop_eq)

section \<open>Volume samples\<close>

lemma sumBins_sum_list: "sumBins acc bins = acc + sum_list (map unat bins)"
  by (induction bins arbitrary: acc) simp_all

lemma sum_list_bytes: "sum_list (map unat (bins :: 8 word list)) \<le> 255 * length bins"
proof (induction bins)
  case Nil
  show ?case by simp
next
  case (Cons b bins)
  have "unat b < 2 ^ 8" using unsigned_less [of b] by simp
  with Cons show ?case by simp
qed

lemma length_getByteFrequencyData: "length (getByteFrequencyData bins) = 128"
  by (simp add: getByteFrequencyData_def frequencyBinCount_def fftSize_def)

lemma average_mean:
  assumes "dataArray \<noteq> []"
  shows "\<exists>v. average dataArray = Num v \<and>
           v = real (sum_list (map unat dataArray)) / real (length dataArray) \<and>
           0 \<le> v \<and> v \<le> 255"
proof -
  let ?n = "length dataArray"
  let ?s = "sum_list (map unat dataArray)"
  have n: "0 < ?n" using assms by simp
  have "real ?s \<le> 255 * real ?n"
    using sum_list_bytes [of dataArray] by (metis of_nat_le_iff of_nat_mult of_nat_numeral)
  then have "real ?s / real ?n \<le> 255"
    using n by (simp add: divide_le_eq)
  then show ?thesis
    using n by (simp add: average_def sumBins_sum_list)
qed

text \<open>
  Claim C9, as the code has it. An audio frame reaches a session wired to the controller.
  While the session's connection flag is set (and its analyser exists), the volume the
  controller receives is the arithmetic mean of the 128 frequency-bin bytes, a value
  between 0 and 255. While the flag is not set the callback returns at its first
  statement: the frame changes nothing, and no volume is computed or forwarded.
\<close>

theorem frame_volume:
  assumes "sentinelRef w = Some sn"
  shows "(isConnected sn \<and> analyser sn \<longrightarrow>
            (\<exists>v. volume (deliver (Frame e) w) = Num v \<and>
               v = real (sum_list (map unat (getByteFrequencyData (frequencyData e)))) / 128 \<and>
               0 \<le> v \<and> v \<le> 255)) \<and>
         (\<not> isConnected sn \<longrightarrow> deliver (Frame e) w = w)"
proof -
  let ?d = "getByteFrequencyData (frequencyData e)"
  have ne: "?d \<noteq> []" using length_getByteFrequencyData [of "frequencyData e"] by auto
  from average_mean [OF ne] obtain v where
    v: "average ?d = Num v" "v = real (sum_list (map unat ?d)) / real (length ?d)"
      "0 \<le> v" "v \<le> 255"
    by blast
  have c: "isConnected sn \<and> analyser sn \<Longrightarrow> volume (deliver (Frame e) w) = average ?d"
    using assms
    by (simp add: deliver_def onaudioprocess_def controllerCallbacks_def this_update_def Let_def)
  have d: "\<not> isConnected sn \<Longrightarrow> deliver (Frame e) w = w"
    using assms by (simp add: deliver_def onaudioprocess_def)
  have v': "v = real (sum_list (map unat ?d)) / 128"
    using v(2) by (simp add: length_getByteFrequencyData)
  show ?thesis
  proof (intro conjI impI)
    assume "isConnected sn \<and> analyser sn"
    then have "volume (deliver (Frame e) w) = Num v" using c v(1) by simp
    then show "\<exists>v. volume (deliver (Frame e) w) = Num v \<and>
               v = real (sum_list (map unat ?d)) / 128 \<and> 0 \<le> v \<and> v \<le> 255"
      using v' v(3,4) by blast
  next
    assume "\<not> isConnected sn"
    then show "deliver (Frame e) w = w" by (rule d)
  qed
qed

theorem frame_volume_witness:
  "sentinelRef armed \<noteq> None \<and> volume (deliver (Frame loud) armed) = Num 255 \<and>
   deliver (Frame loud) (deliver Close armed) = deliver Close armed"
proof -
  have h': "sentinelRef (deliver Close armed) = Some (the (sentinelRef (deliver Close armed)))"
    by (simp add: armed_sentinel deliver_def onclose_def this_update_def controllerCallbacks_def)
  have s: "sum_list (map unat (replicate 128 (255 :: 8 word))) = 128 * 255"
    by (simp add: sum_list_replicate)
  have c: "\<not> isConnected (the (sentinelRef (deliver Close armed)))"
    by (simp add: armed_sentinel deliver_def onclose_def this_update_def controllerCallbacks_def)
  from frame_volume [OF armed_present, of loud] frame_volume [OF h', of loud] s c show ?thesis
    by (simp add: armed_sentinel loud_def getByteFrequencyData_def frequencyBinCount_def
        fftSize_def)
qed

text \<open>
  Claim C9 as stated fails. The system is armed and connected, then the connection
  closes. A frame whose 128 bins are all 255, mean 255, arrives while the session is not
  connected: the volume stays at 0, nothing was forwarded.
\<close>

theorem disconnected_frame_forwards_nothing:
  "average (getByteFrequencyData (frequencyData loud)) = Num 255 \<and>
   map_option isConnected (sentinelRef (run [ToggleArm, Open, SessionFulfilled, Close] mom)) =
     Some False \<and>
   volume (run [ToggleArm, Open, SessionFulfilled, Close] mom) = Num 0 \<and>
   volume (run [ToggleArm, Open, SessionFulfilled, Close, Frame loud] mom) = Num 0"
proof -
  have s: "sumBins 0 (replicate 128 (255 :: 8 word)) = 128 * 255"
    by (simp add: sumBins_sum_list sum_list_replicate)
  show ?thesis
    by (simp add: s average_def loud_def getByteFrequencyData_def frequencyBinCount_def
        fftSize_def world_defs)
qed

section \<open>Messages after stop\<close>

text \<open>
  Claim C10. The system is disarmed, which calls \<^verbatim>\<open>stop\<close>: the session's connection flag
  is false. A message with a distress call that the session processes afterwards still
  runs the controller's trigger callback: a run of the alert pipeline is started (with
  DANGER when the handler is not silent), and when its capture settles an entry with the
  call's reason and emotion is put at the front of the log. The acknowledgment is still
  scheduled: handed to the transport when the connection promise is fulfilled, queued
  when it is pending.
\<close>

theorem message_after_stop:
  assumes "sentinelRef w = Some sn" and "isTrigger fc"
  shows
    "(let w0 = disarm w;
          w1 = deliver (Message \<lparr>toolCall = Some [fc]\<rparr>) w0
      in map_option isConnected (sentinelRef w0) = Some False \<and>
         suspended w1 = suspended w @ [suspension (callbacks sn) fc] \<and>
         (\<not> scope_silentMode (callbacks sn) \<longrightarrow> status w1 = DANGER) \<and>
         (\<forall>env now. \<exists>loc img.
            logs (evidenceSettled (length (suspended w)) env now w1) =
              \<lparr>timestamp = now, log_type = reason (fc_args fc),
               log_emotion = emotion (fc_args fc), location = loc, imageUrl = img,
               isSilent = scope_silentMode (callbacks sn)\<rparr> # logs w) \<and>
         (sessionPromise sn = Some Fulfilled \<longrightarrow>
            map_option transport (sentinelRef w1) = Some (transport sn @ [acknowledgment fc])) \<and>
         (sessionPromise sn = Some Pending \<longrightarrow>
            map_option reactions (sentinelRef w1) = Some (reactions sn @ [acknowledgment fc])))"
proof -
  let ?w0 = "disarm w"
  let ?w1 = "deliver (Message \<lparr>toolCall = Some [fc]\<rparr>) ?w0"
  have s0: "sentinelRef ?w0 = Some (stop sn)"
    using assms(1) disarm_fields [of w] by simp
  have f: "callbacks (stop sn) = callbacks sn" "sessionPromise (stop sn) = sessionPromise sn"
    "transport (stop sn) = transport sn" "reactions (stop sn) = reactions sn"
    "\<not> isConnected (stop sn)"
    using stop_fields [of sn] by simp_all
  have d: "logs ?w0 = logs w" "suspended ?w0 = suspended w"
    using disarm_fields [of w] by simp_all
  note e = invocation_effect [OF s0 assms(2), unfolded f d]
  have a: "sessionPromise sn = Some Fulfilled \<longrightarrow>
            map_option transport (sentinelRef ?w1) = Some (transport sn @ [acknowledgment fc])"
       "sessionPromise sn = Some Pending \<longrightarrow>
            map_option reactions (sentinelRef ?w1) = Some (reactions sn @ [acknowledgment fc])"
    using e(4) by (simp_all add: then_send_def f)
  have l: "\<And>env now. \<exists>loc img.
            logs (evidenceSettled (length (suspended w)) env now ?w1) =
              \<lparr>timestamp = now, log_type = reason (fc_args fc),
               log_emotion = emotion (fc_args fc), location = loc, imageUrl = img,
               isSilent = scope_silentMode (callbacks sn)\<rparr> # logs w"
    using e(5) by blast
  show ?thesis
    unfolding Let_def using s0 f e(1,3) a l by simp
qed

theorem message_after_stop_witness:
  "sentinelRef armed \<noteq> None \<and> isTrigger scream \<and>
   map_option isConnected (sentinelRef (disarm armed)) = Some False \<and>
   map_option transport
     (sentinelRef (deliver (Message \<lparr>toolCall = Some [scream]\<rparr>) (disarm armed))) =
     Some [ToolResponse ''call-1'' ''triggerEmergency'' ''ALERTS_SENT''] \<and>
   length (logs (run [ToggleArm, Message \<lparr>toolCall = Some [scream]\<rparr>,
                      EvidenceSettled 0 timedOut 1000] armed)) = 1"
proof -
  from message_after_stop [OF armed_present scream_trigger] scream_trigger show ?thesis
    by (simp add: Let_def armed_def scream_def timedOut_def world_defs acknowledgment_def
        suspension_def)
qed

end
